(* ===== verification/Prelude.thy ===== *)
theory Prelude
  imports Main "HOL-Library.AList" "HOL-Library.Sublist"
begin

text \<open>
  Shared vocabulary of the development. A Python \<open>str\<close> is a sequence of Unicode code
  points, modelled as a list of natural numbers (\<open>pystr\<close>); an ASCII literal of the source
  is written \<open>ascii ''...''\<close>, and a non-ASCII code point (the accented o of the
  heading word \<open>Topico\<close>, code point 243) is written as its number. A Python
  \<open>dict\<close>, which keeps its keys in insertion order and keeps a key's position when the key is assigned again, is an association list
  updated with \<open>AList.update\<close>. A Python exception is a value of \<open>py_error\<close>, returned on
  the left of a sum. The named collection \<open>py_simps\<close> gathers the evaluation rules of the
  modelled builtins, so that concrete runs of the program evaluate by \<open>simp add: py_simps\<close>.
\<close>

type_synonym pychar = nat
type_synonym pystr = "pychar list"
type_synonym ('k, 'v) pydict = "('k \<times> 'v) list"

text \<open>The parsed outline: a dict from topic names to lists of subtopic names.\<close>

type_synonym outline = "(pystr, pystr list) pydict"

text \<open>
  The exceptions the modelled code can raise: \<open>IndexError\<close> and \<open>KeyError\<close> of the
  builtins, and an exception raised inside a library the code calls (\<open>pdfplumber\<close>),
  with its message.
\<close>

datatype py_error = IndexError | KeyError | Lib_Exception pystr

named_theorems py_simps "evaluation rules of the modelled Python builtins"

definition ascii :: "string \<Rightarrow> pystr" where
  "ascii s = map of_char s"

text \<open>Python's \<open>xs[i]\<close> for a non-negative index: \<open>IndexError\<close> out of range.\<close>

definition py_getitem :: "'a list \<Rightarrow> nat \<Rightarrow> py_error + 'a" where
  "py_getitem xs i = (if i < length xs then Inr (xs ! i) else Inl IndexError)"

text \<open>Python's \<open>d[k]\<close> on a dict: \<open>KeyError\<close> for a missing key.\<close>

definition py_dict_get :: "('k, 'v) pydict \<Rightarrow> 'k \<Rightarrow> py_error + 'v" where
  "py_dict_get d k = (case map_of d k of None \<Rightarrow> Inl KeyError | Some v \<Rightarrow> Inr v)"

text \<open>Python truthiness of an optional string: \<open>None\<close> and \<open>""\<close> are false.\<close>

definition py_truthy_opt :: "pystr option \<Rightarrow> bool" where
  "py_truthy_opt v = (case v of None \<Rightarrow> False | Some s \<Rightarrow> s \<noteq> [])"

text \<open>The keys of a dict, in iteration order.\<close>

abbreviation dict_keys :: "('k, 'v) pydict \<Rightarrow> 'k list" where
  "dict_keys d \<equiv> map fst d"

subsection \<open>Generic lemmas\<close>

lemma py_truthy_opt_simps [simp, py_simps]:
  "\<not> py_truthy_opt None"
  "py_truthy_opt (Some s) \<longleftrightarrow> s \<noteq> []"
  by (simp_all add: py_truthy_opt_def)

lemma ascii_Nil [simp, py_simps]: "ascii [] = []"
  and ascii_Cons [simp, py_simps]: "ascii (c # s) = of_char c # ascii s"
  and ascii_append [simp]: "ascii (s @ t) = ascii s @ ascii t"
  by (simp_all add: ascii_def)

lemma length_ascii [simp]: "length (ascii s) = length s"
  by (simp add: ascii_def)

lemma py_getitem_Inr_iff: "py_getitem xs i = Inr x \<longleftrightarrow> i < length xs \<and> xs ! i = x"
  by (auto simp: py_getitem_def)

lemma py_getitem_Inl_iff: "py_getitem xs i = Inl e \<longleftrightarrow> length xs \<le> i \<and> e = IndexError"
  by (auto simp: py_getitem_def)

lemma py_getitem_simps [simp, py_simps]:
  "py_getitem (x # xs) 0 = Inr x"
  "py_getitem (x # xs) (Suc i) = py_getitem xs i"
  "py_getitem [] i = Inl IndexError"
  by (simp_all add: py_getitem_def)

lemma py_dict_get_Some [simp]: "map_of d k = Some v \<Longrightarrow> py_dict_get d k = Inr v"
  and py_dict_get_None [simp]: "map_of d k = None \<Longrightarrow> py_dict_get d k = Inl KeyError"
  by (simp_all add: py_dict_get_def)

text \<open>
  Assigning a key of a dict keeps the key order when the key is present and appends the
  key at the end otherwise: the insertion-order guarantee of Python's \<open>dict\<close>.
\<close>

lemma dict_keys_update:
  "dict_keys (AList.update k v d) =
     (if k \<in> set (dict_keys d) then dict_keys d else dict_keys d @ [k])"
  by (induction d) auto

declare dom_update [simp]

lemma map_of_update_same [simp]: "map_of (AList.update k v d) k = Some v"
  by (simp add: update_conv')

lemma map_of_update_other [simp]: "k' \<noteq> k \<Longrightarrow> map_of (AList.update k v d) k' = map_of d k'"
  by (simp add: update_conv')

lemma distinct_dict_keys_update [intro]:
  "distinct (dict_keys d) \<Longrightarrow> distinct (dict_keys (AList.update k v d))"
  by (simp add: distinct_update)

lemma map_of_Some_in_keys: "map_of d k = Some v \<Longrightarrow> k \<in> set (dict_keys d)"
  by (induction d) (auto split: if_splits)

text \<open>A key and its value in a dict with distinct keys.\<close>

lemma in_set_dict_map_of:
  "distinct (dict_keys d) \<Longrightarrow> (k, v) \<in> set d \<longleftrightarrow> map_of d k = Some v"
  by simp

end
