(* ===== verification/PyStr.thy ===== *)
theory PyStr
  imports Prelude
begin

text \<open>
  The Python \<open>str\<close> methods that \<open>src/main.py\<close> calls, over strings of code points:
  \<open>str.isspace\<close> and \<open>str.strip()\<close>, \<open>str.splitlines()\<close>, \<open>str.startswith\<close>, the
  substring test \<open>in\<close>, \<open>str.split(sep, 1)\<close> for a one-character separator, slicing
  \<open>s[1:]\<close> (\<open>drop 1\<close>) and \<open>str()\<close> of a non-negative \<open>int\<close>. Each follows the CPython
  definition: the whitespace and line-boundary sets are the exact Unicode sets of
  \<open>str.isspace\<close> and \<open>str.splitlines\<close>, \<open>"\r\n"\<close> is one line boundary, and a
  trailing boundary does not start a new line. These are library functions, not code of
  the repository; the lemmas here are the facts about them the parser proofs use:
  \<open>in\<close> is the library's \<open>sublist\<close>, \<open>startswith\<close> is \<open>prefix\<close>, joining lines and
  splitting them again is the identity, and \<open>str()\<close> of a number reads back.
\<close>

subsection \<open>Whitespace and line boundaries\<close>

definition py_whitespace :: "pychar list" where
  "py_whitespace =
     [9..<14] @ [28..<33] @ [133, 160, 5760] @ [8192..<8203] @ [8232, 8233, 8239, 8287, 12288]"

definition py_isspace :: "pychar \<Rightarrow> bool" where
  "py_isspace c \<longleftrightarrow> c \<in> set py_whitespace"

definition py_linebreaks :: "pychar list" where
  "py_linebreaks = [10, 11, 12, 13, 28, 29, 30, 133, 8232, 8233]"

definition py_is_linebreak :: "pychar \<Rightarrow> bool" where
  "py_is_linebreak c \<longleftrightarrow> c \<in> set py_linebreaks"

subsection \<open>strip\<close>

definition py_lstrip :: "pystr \<Rightarrow> pystr" where
  "py_lstrip s = dropWhile py_isspace s"

definition py_rstrip :: "pystr \<Rightarrow> pystr" where
  "py_rstrip s = rev (dropWhile py_isspace (rev s))"

definition py_strip :: "pystr \<Rightarrow> pystr" where
  "py_strip s = py_rstrip (py_lstrip s)"

subsection \<open>splitlines\<close>

text \<open>
  \<open>cur\<close> holds the line read so far. A boundary ends it; \<open>"\r\n"\<close> counts once; at the
  end of the string a non-empty \<open>cur\<close> is the last line.
\<close>

fun splitlines_from :: "pystr \<Rightarrow> pystr \<Rightarrow> pystr list" where
  "splitlines_from cur [] = (if cur = [] then [] else [cur])"
| "splitlines_from cur (c # cs) =
     (if c = 13 \<and> take 1 cs = [10] then cur # splitlines_from [] (drop 1 cs)
      else if py_is_linebreak c then cur # splitlines_from [] cs
      else splitlines_from (cur @ [c]) cs)"

definition py_splitlines :: "pystr \<Rightarrow> pystr list" where
  "py_splitlines s = splitlines_from [] s"

subsection \<open>startswith, in, split, slicing\<close>

definition py_startswith :: "pystr \<Rightarrow> pystr \<Rightarrow> bool" where
  "py_startswith s p \<longleftrightarrow> take (length p) s = p"

text \<open>\<open>n in h\<close>: \<open>n\<close> occurs at some position of \<open>h\<close>.\<close>

fun py_contains :: "pystr \<Rightarrow> pystr \<Rightarrow> bool" where
  "py_contains n [] \<longleftrightarrow> n = []"
| "py_contains n (c # cs) \<longleftrightarrow> py_startswith (c # cs) n \<or> py_contains n cs"

text \<open>\<open>s.split(sep, 1)\<close>: the parts before and after the first \<open>sep\<close>, or \<open>[s]\<close>.\<close>

definition py_split1 :: "pystr \<Rightarrow> pychar \<Rightarrow> pystr list" where
  "py_split1 s sep =
     (if sep \<in> set s then [takeWhile (\<lambda>c. c \<noteq> sep) s, tl (dropWhile (\<lambda>c. c \<noteq> sep) s)]
      else [s])"

subsection \<open>str() of a non-negative integer\<close>

fun py_str_nat :: "nat \<Rightarrow> pystr" where
  "py_str_nat n = (if n < 10 then [48 + n] else py_str_nat (n div 10) @ [48 + n mod 10])"

declare py_str_nat.simps [simp del]

text \<open>Reading decimal digits back, the inverse used to show \<open>str()\<close> injective.\<close>

definition digits_value :: "pystr \<Rightarrow> nat" where
  "digits_value s = foldl (\<lambda>acc c. 10 * acc + (c - 48)) 0 s"

subsection \<open>Evaluation rules\<close>

lemma py_isspace_iff [py_simps]:
  "py_isspace c \<longleftrightarrow>
     (9 \<le> c \<and> c < 14) \<or> (28 \<le> c \<and> c < 33) \<or> c = 133 \<or> c = 160 \<or> c = 5760 \<or>
     (8192 \<le> c \<and> c < 8203) \<or> c = 8232 \<or> c = 8233 \<or> c = 8239 \<or> c = 8287 \<or> c = 12288"
  by (auto simp: py_isspace_def py_whitespace_def simp del: upt_rec_numeral)

lemma py_is_linebreak_iff [py_simps]:
  "py_is_linebreak c \<longleftrightarrow>
     (10 \<le> c \<and> c < 14) \<or> (28 \<le> c \<and> c < 31) \<or> c = 133 \<or> c = 8232 \<or> c = 8233"
  by (auto simp: py_is_linebreak_def py_linebreaks_def)

lemma linebreak_isspace: "py_is_linebreak c \<Longrightarrow> py_isspace c"
  by (auto simp: py_isspace_iff py_is_linebreak_iff)

lemmas py_str_defs [py_simps] =
  py_strip_def py_lstrip_def py_rstrip_def py_splitlines_def py_startswith_def py_split1_def

subsection \<open>Facts about strip\<close>

lemma py_lstrip_no_space: "py_lstrip s = [] \<or> \<not> py_isspace (hd (py_lstrip s))"
  by (induction s) (auto simp: py_lstrip_def)

lemma py_strip_Nil [simp]: "py_strip [] = []"
  by (simp add: py_strip_def py_lstrip_def py_rstrip_def)

lemma py_strip_Nil_iff: "py_strip s = [] \<longleftrightarrow> (\<forall>c\<in>set s. py_isspace c)"
proof -
  have "py_rstrip t = [] \<longleftrightarrow> (\<forall>c\<in>set t. py_isspace c)" for t
    by (simp add: py_rstrip_def dropWhile_eq_Nil_conv)
  moreover have "(\<forall>c\<in>set (dropWhile py_isspace s). py_isspace c) \<longleftrightarrow> (\<forall>c\<in>set s. py_isspace c)"
    by (induction s) auto
  ultimately show ?thesis
    by (simp add: py_strip_def py_lstrip_def)
qed

text \<open>Stripping a string padded with whitespace on both sides gives the stripped core.\<close>

lemma py_strip_pad:
  assumes a: "\<forall>c\<in>set a. py_isspace c" and b: "\<forall>c\<in>set b. py_isspace c"
    and s: "s = [] \<or> (\<not> py_isspace (hd s) \<and> \<not> py_isspace (last s))"
  shows "py_strip (a @ s @ b) = s"
proof (cases "s = []")
  case True
  with a b show ?thesis by (auto simp: py_strip_Nil_iff)
next
  case False
  with s have h: "\<not> py_isspace (hd s)" and l: "\<not> py_isspace (last s)" by auto
  from a have "py_lstrip (a @ s @ b) = dropWhile py_isspace (s @ b)"
    unfolding py_lstrip_def by (intro dropWhile_append2) auto
  also from False h have "\<dots> = s @ b"
    by (cases s) auto
  finally have L: "py_lstrip (a @ s @ b) = s @ b" .
  from b have "dropWhile py_isspace (rev b @ rev s) = dropWhile py_isspace (rev s)"
    by (intro dropWhile_append2) auto
  also from False l have "\<dots> = rev s"
    by (cases "rev s") (auto simp: last_rev[symmetric] simp del: last_rev)
  finally show ?thesis
    using L by (simp add: py_strip_def py_rstrip_def)
qed

lemma py_strip_id:
  "s = [] \<or> (\<not> py_isspace (hd s) \<and> \<not> py_isspace (last s)) \<Longrightarrow> py_strip s = s"
  using py_strip_pad [of "[]" "[]" s] by simp

lemma last_dropWhile_same: "dropWhile P xs \<noteq> [] \<Longrightarrow> last (dropWhile P xs) = last xs"
  by (induction xs) auto

text \<open>A stripped string that is not empty starts and ends with a non-whitespace character.\<close>

lemma py_strip_ends:
  assumes ne: "py_strip s \<noteq> []"
  shows "\<not> py_isspace (hd (py_strip s)) \<and> \<not> py_isspace (last (py_strip s))"
proof -
  let ?L = "dropWhile py_isspace s"
  let ?R = "dropWhile py_isspace (rev ?L)"
  have eq: "py_strip s = rev ?R"
    by (simp add: py_strip_def py_rstrip_def py_lstrip_def)
  with ne have R: "?R \<noteq> []" by simp
  then have L: "?L \<noteq> []" by (metis dropWhile.simps(1) rev.simps(1))
  have "last (py_strip s) = hd ?R" using eq by (simp add: last_rev)
  moreover have "\<not> py_isspace (hd ?R)" using R by (rule hd_dropWhile)
  moreover have "hd (py_strip s) = last ?R" using eq by (simp add: hd_rev)
  moreover have "last ?R = last (rev ?L)" using R by (rule last_dropWhile_same)
  moreover have "last (rev ?L) = hd ?L" by (simp add: last_rev)
  moreover have "\<not> py_isspace (hd ?L)" using L by (rule hd_dropWhile)
  ultimately show ?thesis by simp
qed

lemma py_strip_idem [simp]: "py_strip (py_strip s) = py_strip s"
  using py_strip_ends [of s] py_strip_id [of "py_strip s"] by blast

lemma py_strip_nonspace_hd: "s \<noteq> [] \<Longrightarrow> \<not> py_isspace (hd s) \<Longrightarrow> py_strip s \<noteq> []"
  by (cases s) (auto simp: py_strip_Nil_iff)

text \<open>Stripping a string that starts with a non-space character keeps that character first.\<close>

lemma py_strip_Cons_nonspace: "\<not> py_isspace c \<Longrightarrow> \<exists>t. py_strip (c # s) = c # t"
proof -
  assume c: "\<not> py_isspace c"
  show ?thesis
  proof (cases "\<forall>x\<in>set (rev s). py_isspace x")
    case True
    with c have "dropWhile py_isspace (rev s @ [c]) = [c]" by (subst dropWhile_append2) auto
    with c show ?thesis by (simp add: py_strip_def py_lstrip_def py_rstrip_def)
  next
    case False
    then obtain x where "x \<in> set (rev s)" "\<not> py_isspace x" by blast
    with c show ?thesis by (simp add: py_strip_def py_lstrip_def py_rstrip_def dropWhile_append1)
  qed
qed

subsection \<open>Facts about splitlines\<close>

lemma splitlines_from_line:
  "\<forall>c\<in>set l. \<not> py_is_linebreak c \<Longrightarrow>
     splitlines_from cur (l @ 10 # rest) = (cur @ l) # splitlines_from [] rest"
proof (induction l arbitrary: cur)
  case Nil
  show ?case by (simp add: py_is_linebreak_iff)
next
  case (Cons c l)
  then have "c \<noteq> 13" and "\<not> py_is_linebreak c"
    by (auto simp: py_is_linebreak_iff)
  with Cons show ?case by simp
qed

lemma splitlines_from_no_break:
  "\<forall>c\<in>set l. \<not> py_is_linebreak c \<Longrightarrow>
     splitlines_from cur l = (if cur @ l = [] then [] else [cur @ l])"
proof (induction l arbitrary: cur)
  case Nil
  then show ?case by simp
next
  case (Cons c l)
  then have "c \<noteq> 13" by (auto simp: py_is_linebreak_iff)
  with Cons show ?case by simp
qed

text \<open>A string without a line boundary is one line.\<close>

lemma py_splitlines_no_break:
  "\<forall>c\<in>set l. \<not> py_is_linebreak c \<Longrightarrow> l \<noteq> [] \<Longrightarrow> py_splitlines l = [l]"
  by (simp add: py_splitlines_def splitlines_from_no_break)

text \<open>Lines without a boundary, each ended by \<open>"\n"\<close>, split back into themselves.\<close>

lemma py_splitlines_join:
  "\<forall>l\<in>set ls. \<forall>c\<in>set l. \<not> py_is_linebreak c \<Longrightarrow>
     py_splitlines (concat (map (\<lambda>l. l @ [10]) ls)) = ls"
proof (induction ls)
  case Nil
  show ?case by (simp add: py_splitlines_def)
next
  case (Cons l ls)
  then show ?case
    by (simp add: py_splitlines_def splitlines_from_line)
qed

subsection \<open>Facts about startswith, in and split\<close>

lemma py_startswith_prefix: "py_startswith s p \<longleftrightarrow> prefix p s"
  by (metis append_eq_conv_conj prefix_def py_startswith_def)

lemma py_startswith_single [simp]: "py_startswith s [c] \<longleftrightarrow> s \<noteq> [] \<and> hd s = c"
  by (cases s) (auto simp: py_startswith_def)

lemma py_contains_sublist: "py_contains n h \<longleftrightarrow> sublist n h"
  by (induction h) (auto simp: py_startswith_prefix sublist_Cons_right)

lemma py_contains_middle: "py_contains n (a @ n @ b)"
  by (auto simp: py_contains_sublist sublist_def)

lemma takeWhile_first_sep: "sep \<notin> set a \<Longrightarrow> takeWhile (\<lambda>c. c \<noteq> sep) (a @ sep # b) = a"
  by (induction a) auto

lemma dropWhile_first_sep: "sep \<notin> set a \<Longrightarrow> dropWhile (\<lambda>c. c \<noteq> sep) (a @ sep # b) = sep # b"
  by (induction a) auto

lemma py_split1_first: "sep \<notin> set a \<Longrightarrow> py_split1 (a @ sep # b) sep = [a, b]"
  by (simp add: py_split1_def takeWhile_first_sep dropWhile_first_sep)

lemma py_split1_none: "sep \<notin> set s \<Longrightarrow> py_split1 s sep = [s]"
  by (simp add: py_split1_def)

lemma length_py_split1: "length (py_split1 s sep) = (if sep \<in> set s then 2 else 1)"
  by (simp add: py_split1_def)

lemma py_split1_cases:
  obtains (found) a b where "s = a @ sep # b" "sep \<notin> set a" "py_split1 s sep = [a, b]"
  | (none) "sep \<notin> set s" "py_split1 s sep = [s]"
proof (cases "sep \<in> set s")
  case True
  then obtain a b where "s = a @ sep # b" "sep \<notin> set a"
    by (blast dest: split_list_first)
  with found show ?thesis by (simp add: py_split1_first)
next
  case False
  with none show ?thesis by (simp add: py_split1_none)
qed

subsection \<open>Facts about str() of a number\<close>

lemma py_str_nat_digits: "c \<in> set (py_str_nat n) \<Longrightarrow> 48 \<le> c \<and> c < 58"
proof (induction n rule: py_str_nat.induct)
  case (1 n)
  then show ?case
    by (subst (asm) py_str_nat.simps) (auto split: if_splits)
qed

lemma py_str_nat_not_Nil [simp]: "py_str_nat n \<noteq> []"
  by (subst py_str_nat.simps) simp

lemma digits_value_py_str_nat [simp]: "digits_value (py_str_nat n) = n"
proof (induction n rule: py_str_nat.induct)
  case (1 n)
  show ?case
  proof (cases "n < 10")
    case True
    then show ?thesis by (subst py_str_nat.simps) (simp add: digits_value_def)
  next
    case False
    with "1.IH" have "digits_value (py_str_nat (n div 10)) = n div 10" by simp
    with False show ?thesis
      by (subst py_str_nat.simps) (simp add: digits_value_def)
  qed
qed

lemma py_str_nat_inject [simp]: "py_str_nat m = py_str_nat n \<longleftrightarrow> m = n"
  by (metis digits_value_py_str_nat)

end
