(* ===== verification/Parser.thy ===== *)
theory Parser
  imports PyStr
begin

text \<open>
  The outline parser \<open>parse_topicos\<close> of \<open>src/main.py\<close> (lines 80--102). The loop
  state of the source, the dict \<open>topicos\<close> and the variable \<open>current_topico\<close>
  (\<open>None\<close> or a \<open>str\<close>), is the record \<open>parse_state\<close>; one iteration of the
  \<open>for\<close> loop is \<open>parse_linha\<close>, with the two guards of the source in their order;
  the loop is \<open>parse_linhas\<close>, which stops at the first exception as Python does. The
  subscript \<open>linha.split(":", 1)[1]\<close> of a topic line raises \<open>IndexError\<close> when the
  line has no colon, and \<open>topicos[current_topico]\<close> would raise \<open>KeyError\<close> for a
  missing key: both are branches of the model. The lemmas show the invariant of the loop
  (the current topic is always a key, keys are distinct), that \<open>KeyError\<close> is never
  raised, and exactly when \<open>IndexError\<close> is.
\<close>

record parse_state =
  topicos :: outline
  current_topico :: "pystr option"

definition parse_init :: parse_state where
  "parse_init = \<lparr>topicos = [], current_topico = None\<rparr>"

text \<open>The literals of the source: the heading word \<open>T\<close>, \<open>o\<close>-acute, \<open>pico\<close>, and the colon.\<close>

definition topico_word :: pystr where
  "topico_word = ascii ''T'' @ [243] @ ascii ''pico''"

definition colon :: pychar where
  "colon = of_char CHR '':''"

text \<open>The two guards of the loop body, on the stripped line.\<close>

definition is_topico_line :: "pystr \<Rightarrow> bool" where
  "is_topico_line linha \<longleftrightarrow> py_startswith linha (ascii ''*'') \<and> py_contains topico_word linha"

definition is_sub_line :: "pystr \<Rightarrow> bool" where
  "is_sub_line linha \<longleftrightarrow> py_startswith linha (ascii ''+'')"

definition parse_linha :: "parse_state \<Rightarrow> pystr \<Rightarrow> py_error + parse_state" where
  "parse_linha st linha0 =
     (let linha = py_strip linha0 in
      if linha = [] then Inr st
      else if is_topico_line linha then
        (case py_getitem (py_split1 linha colon) 1 of
           Inl e \<Rightarrow> Inl e
         | Inr part \<Rightarrow>
             (let t = py_strip part
              in Inr (st\<lparr>current_topico := Some t, topicos := AList.update t [] (topicos st)\<rparr>)))
      else if is_sub_line linha \<and> py_truthy_opt (current_topico st) then
        (let cur = the (current_topico st)
         in (case (if colon \<in> set linha then py_getitem (py_split1 linha colon) 1
                   else Inr (drop 1 linha)) of
               Inl e \<Rightarrow> Inl e
             | Inr part \<Rightarrow>
                 (let subt = py_strip part
                  in (case py_dict_get (topicos st) cur of
                        Inl e \<Rightarrow> Inl e
                      | Inr subs \<Rightarrow>
                          Inr (st\<lparr>topicos := AList.update cur (subs @ [subt]) (topicos st)\<rparr>)))))
      else Inr st)"

fun parse_linhas :: "parse_state \<Rightarrow> pystr list \<Rightarrow> py_error + parse_state" where
  "parse_linhas st [] = Inr st"
| "parse_linhas st (l # ls) =
     (case parse_linha st l of Inl e \<Rightarrow> Inl e | Inr st' \<Rightarrow> parse_linhas st' ls)"

definition parse_topicos :: "pystr \<Rightarrow> py_error + outline" where
  "parse_topicos resposta =
     (case parse_linhas parse_init (py_splitlines resposta) of
        Inl e \<Rightarrow> Inl e
      | Inr st \<Rightarrow> Inr (topicos st))"

text \<open>A topic line without a colon: the input on which the source raises.\<close>

definition missing_colon_topic :: "pystr \<Rightarrow> bool" where
  "missing_colon_topic l \<longleftrightarrow> is_topico_line (py_strip l) \<and> colon \<notin> set (py_strip l)"

text \<open>The loop invariant: distinct keys, and the current topic (if any) is a key.\<close>

definition parse_inv :: "parse_state \<Rightarrow> bool" where
  "parse_inv st \<longleftrightarrow>
     distinct (dict_keys (topicos st)) \<and>
     (case current_topico st of None \<Rightarrow> True | Some t \<Rightarrow> t \<in> set (dict_keys (topicos st)))"

lemmas parse_simps [py_simps] = parse_topicos_def parse_linha_def topico_word_def colon_def
  is_topico_line_def is_sub_line_def py_truthy_opt_def parse_init_def Let_def

subsection \<open>The loop\<close>

lemma parse_linhas_append:
  "parse_linhas st (xs @ ys) =
     (case parse_linhas st xs of Inl e \<Rightarrow> Inl e | Inr st' \<Rightarrow> parse_linhas st' ys)"
  by (induction xs arbitrary: st) (auto split: sum.splits)

lemma parse_linhas_single [simp]: "parse_linhas st [l] = parse_linha st l"
  by (simp split: sum.split)

lemma py_getitem_split1_1 [simp]:
  "py_getitem (py_split1 s sep) (Suc 0) =
     (if sep \<in> set s then Inr (tl (dropWhile (\<lambda>c. c \<noteq> sep) s)) else Inl IndexError)"
  by (simp add: py_split1_def py_getitem_def)

lemma is_topico_line_Nil [simp]: "\<not> is_topico_line []"
  and is_sub_line_Nil [simp]: "\<not> is_sub_line []"
  by (simp_all add: is_topico_line_def is_sub_line_def)

lemma parse_inv_init [simp]: "parse_inv parse_init"
  by (simp add: parse_inv_def parse_init_def)

subsection \<open>One iteration\<close>

text \<open>Each iteration keeps the invariant.\<close>

lemma parse_linha_inv:
  assumes "parse_inv st" and "parse_linha st l = Inr st'"
  shows "parse_inv st'"
  using assms
  by (auto simp: parse_linha_def parse_inv_def py_truthy_opt_def dict_keys_update
        py_dict_get_def Let_def dest: map_of_Some_in_keys
        split: if_splits sum.splits option.splits)

text \<open>
  An iteration raises only on a topic line without a colon, and then \<open>IndexError\<close>;
  under the invariant the lookup \<open>topicos[current_topico]\<close> always finds its key.
\<close>

lemma parse_linha_Inl_iff:
  assumes "parse_inv st"
  shows "parse_linha st l = Inl e \<longleftrightarrow> e = IndexError \<and> missing_colon_topic l"
  using assms
  by (auto simp: parse_linha_def parse_inv_def missing_colon_topic_def py_truthy_opt_def
        py_dict_get_def Let_def map_of_eq_None_iff
        split: if_splits sum.splits option.splits)

lemma parse_linha_Inr_not_missing:
  assumes "parse_inv st" and "parse_linha st l = Inr st'"
  shows "\<not> missing_colon_topic l"
proof
  assume "missing_colon_topic l"
  with assms(1) have "parse_linha st l = Inl IndexError"
    by (simp add: parse_linha_Inl_iff)
  with assms(2) show False by simp
qed

subsection \<open>The whole loop\<close>

lemma parse_linhas_inv:
  "parse_inv st \<Longrightarrow> parse_linhas st ls = Inr st' \<Longrightarrow> parse_inv st'"
proof (induction ls arbitrary: st)
  case Nil
  then show ?case by simp
next
  case (Cons l ls)
  then obtain st1 where "parse_linha st l = Inr st1" and "parse_linhas st1 ls = Inr st'"
    by (auto split: sum.splits)
  with Cons show ?case by (blast intro: parse_linha_inv)
qed

lemma parse_linhas_Inl_iff:
  "parse_inv st \<Longrightarrow>
     parse_linhas st ls = Inl e \<longleftrightarrow> e = IndexError \<and> (\<exists>l\<in>set ls. missing_colon_topic l)"
proof (induction ls arbitrary: st)
  case Nil
  then show ?case by simp
next
  case (Cons l ls)
  show ?case
  proof (cases "parse_linha st l")
    case (Inl e')
    with Cons.prems have "e' = IndexError" and "missing_colon_topic l"
      by (simp_all add: parse_linha_Inl_iff)
    with Inl show ?thesis by auto
  next
    case (Inr st1)
    with Cons.prems have "parse_inv st1" and "\<not> missing_colon_topic l"
      by (auto intro: parse_linha_inv dest: parse_linha_Inr_not_missing)
    with Inr Cons.IH show ?thesis by auto
  qed
qed

text \<open>With no current topic and no topic line, the loop leaves the state as it is.\<close>

lemma parse_linhas_no_topic:
  assumes "current_topico st = None" and "\<forall>l\<in>set ls. \<not> is_topico_line (py_strip l)"
  shows "parse_linhas st ls = Inr st"
  using assms(2)
proof (induction ls)
  case Nil
  then show ?case by simp
next
  case (Cons l ls)
  with assms(1) have "parse_linha st l = Inr st"
    by (simp add: parse_linha_def py_truthy_opt_def Let_def)
  with Cons show ?case by simp
qed

subsection \<open>From the loop to parse_topicos\<close>

lemma parse_topicos_Inl: "parse_topicos r = Inl e \<longleftrightarrow> parse_linhas parse_init (py_splitlines r) = Inl e"
  by (auto simp: parse_topicos_def split: sum.splits)

lemma parse_topicos_Inr:
  "parse_topicos r = Inr d \<longleftrightarrow> (\<exists>st. parse_linhas parse_init (py_splitlines r) = Inr st \<and> d = topicos st)"
  by (auto simp: parse_topicos_def split: sum.splits)

lemma parse_topicos_Inr_no_missing:
  assumes "parse_topicos r = Inr d"
  shows "\<forall>l\<in>set (py_splitlines r). \<not> missing_colon_topic l"
proof
  fix l assume l: "l \<in> set (py_splitlines r)"
  show "\<not> missing_colon_topic l"
  proof
    assume "missing_colon_topic l"
    with l have "parse_linhas parse_init (py_splitlines r) = Inl IndexError"
      by (auto simp: parse_linhas_Inl_iff)
    with assms show False by (simp add: parse_topicos_def)
  qed
qed

subsection \<open>Properties of parse_topicos\<close>

text \<open>
  C2. \<open>parse_topicos\<close> raises an exception exactly when some line of the reply, once
  stripped, is a topic line (starts with \<open>*\<close> and contains the heading word) that has no
  colon; the exception is then \<open>IndexError\<close> from \<open>linha.split(":", 1)[1]\<close>.
\<close>

theorem parse_topicos_raises_iff:
  "parse_topicos resposta = Inl e \<longleftrightarrow>
     e = IndexError \<and> (\<exists>l\<in>set (py_splitlines resposta). missing_colon_topic l)"
  by (simp add: parse_topicos_Inl parse_linhas_Inl_iff)

theorem parse_topicos_raises_iff_witness:
  "parse_topicos (ascii ''* T'' @ [243] @ ascii ''pico 1 Redes'') = Inl IndexError"
  using parse_topicos_raises_iff [of "ascii ''* T'' @ [243] @ ascii ''pico 1 Redes''" IndexError]
  by (simp add: py_simps missing_colon_topic_def)

text \<open>
  C3. \<open>parse_topicos\<close> never raises \<open>KeyError\<close>: when a subtopic line is appended to
  \<open>topicos[current_topico]\<close>, the current topic is always a key of the dict.
\<close>

theorem parse_topicos_never_KeyError: "parse_topicos resposta \<noteq> Inl KeyError"
  by (simp add: parse_topicos_Inl parse_linhas_Inl_iff)

text \<open>
  C5. A reply none of whose lines is a topic line (for instance every diagnostic message
  of the requester, or the empty reply) parses to the empty outline.
\<close>

theorem parse_topicos_no_topic_empty:
  "\<forall>l\<in>set (py_splitlines resposta). \<not> is_topico_line (py_strip l) \<Longrightarrow> parse_topicos resposta = Inr []"
  by (simp add: parse_topicos_def parse_linhas_no_topic parse_init_def)

theorem parse_topicos_no_topic_empty_witness:
  "parse_topicos (ascii ''+ Orphan: X\<newline>texto'') = Inr []"
  using parse_topicos_no_topic_empty [of "ascii ''+ Orphan: X\<newline>texto''"]
  by (simp add: py_simps)

text \<open>
  C6. Lines before the first topic line, subtopic lines included, have no effect: the
  loop from the initial state over \<open>pre @ ls\<close> ends as over \<open>ls\<close> alone when no line of
  \<open>pre\<close> is a topic line.
\<close>

theorem parse_linhas_orphans_ignored:
  "\<forall>l\<in>set pre. \<not> is_topico_line (py_strip l) \<Longrightarrow>
     parse_linhas parse_init (pre @ ls) = parse_linhas parse_init ls"
  by (simp add: parse_linhas_append parse_linhas_no_topic parse_init_def)

theorem parse_linhas_orphans_ignored_witness:
  "parse_linhas parse_init ([ascii ''+ Orphan: X''] @ [ascii ''* T'' @ [243] @ ascii ''pico 1: A''])
   = parse_linhas parse_init [ascii ''* T'' @ [243] @ ascii ''pico 1: A'']"
  by (rule parse_linhas_orphans_ignored) (simp add: py_simps)

end
