(* ===== verification/Extractor.thy ===== *)
theory Extractor
  imports PyStr
begin

text \<open>
  The text extractor \<open>extrair_texto_pdf\<close> of \<open>src/main.py\<close> (lines 33--40). The PDF
  library is external: \<open>pdfplumber.open\<close> is a parameter that either raises or yields
  the pages, and each page is given by the outcome of its \<open>extract_text()\<close>, which
  raises, returns \<open>None\<close> or returns a string. The loop appends a page's text and a
  newline when the text is truthy (not \<open>None\<close>, not empty) and propagates the first
  exception, which \<open>main\<close> does not catch. The lemmas give the result in closed form
  (the non-empty page texts, each followed by \<open>"\n"\<close>) and the exception raised.
\<close>

type_synonym page_result = "py_error + pystr option"

fun extrair_paginas :: "pystr \<Rightarrow> page_result list \<Rightarrow> py_error + pystr" where
  "extrair_paginas texto [] = Inr texto"
| "extrair_paginas texto (p # ps) =
     (case p of
        Inl e \<Rightarrow> Inl e
      | Inr pagina_texto \<Rightarrow>
          extrair_paginas
            (if py_truthy_opt pagina_texto then texto @ the pagina_texto @ [10] else texto) ps)"

definition extrair_texto_pdf ::
  "(pystr \<Rightarrow> py_error + page_result list) \<Rightarrow> pystr \<Rightarrow> py_error + pystr" where
  "extrair_texto_pdf pdf_open caminho_pdf =
     (case pdf_open caminho_pdf of
        Inl e \<Rightarrow> Inl e
      | Inr paginas \<Rightarrow> extrair_paginas [] paginas)"

text \<open>The texts of the pages that contribute, in page order.\<close>

definition textos_validos :: "pystr option list \<Rightarrow> pystr list" where
  "textos_validos ps = [t. Some t \<leftarrow> ps, t \<noteq> []]"

subsection \<open>Lemmas\<close>

lemma textos_validos_simps [simp]:
  "textos_validos [] = []"
  "textos_validos (None # ps) = textos_validos ps"
  "textos_validos (Some t # ps) = (if t = [] then textos_validos ps else t # textos_validos ps)"
  by (simp_all add: textos_validos_def)

lemma extrair_paginas_Inr:
  "extrair_paginas texto (map Inr ps) =
     Inr (texto @ concat (map (\<lambda>t. t @ [10]) (textos_validos ps)))"
proof (induction ps arbitrary: texto)
  case Nil
  then show ?case by simp
next
  case (Cons p ps)
  then show ?case by (cases p) (auto simp: py_truthy_opt_def)
qed

lemma extrair_paginas_Inl:
  "extrair_paginas texto (map Inr ps @ Inl e # rest) = Inl e"
proof (induction ps arbitrary: texto)
  case Nil
  then show ?case by simp
next
  case (Cons p ps)
  then show ?case by simp
qed

lemma page_results_cases:
  obtains (ok) ps where "rs = map Inr ps"
  | (failed) ps e rest where "rs = map Inr ps @ Inl e # rest"
proof (induction rs arbitrary: thesis)
  case Nil
  then show ?case by simp
next
  case (Cons r rs)
  show ?case
  proof (cases r)
    case (Inl e)
    with Cons.prems(2) [of "[]" e rs] show ?thesis by simp
  next
    case (Inr p)
    show ?thesis
    proof (rule Cons.IH)
      fix ps assume "rs = map Inr ps"
      with Inr Cons.prems(1) [of "p # ps"] show ?thesis by simp
    next
      fix ps e rest assume "rs = map Inr ps @ Inl e # rest"
      with Inr Cons.prems(2) [of "p # ps" e rest] show ?thesis by simp
    qed
  qed
qed

subsection \<open>Properties\<close>

text \<open>
  C15. When the PDF opens and no page raises, \<open>extrair_texto_pdf\<close> returns the texts of
  the pages whose extraction is truthy, each followed by a newline, in page order: pages
  with no text (\<open>None\<close> or \<open>""\<close>) contribute nothing.
\<close>

theorem extrair_texto_pdf_ok:
  "pdf_open caminho_pdf = Inr (map Inr paginas) \<Longrightarrow>
     extrair_texto_pdf pdf_open caminho_pdf = Inr (concat (map (\<lambda>t. t @ [10]) (textos_validos paginas)))"
  by (simp add: extrair_texto_pdf_def extrair_paginas_Inr)

theorem extrair_texto_pdf_ok_witness:
  "extrair_texto_pdf (\<lambda>_. Inr [Inr (Some (ascii ''a'')), Inr None, Inr (Some []), Inr (Some (ascii ''b''))]) (ascii ''x.pdf'')
     = Inr (ascii ''a\<newline>b\<newline>'')"
  using extrair_texto_pdf_ok [of "\<lambda>_. Inr [Inr (Some (ascii ''a'')), Inr None, Inr (Some []), Inr (Some (ascii ''b''))]"
      "ascii ''x.pdf''" "[Some (ascii ''a''), None, Some [], Some (ascii ''b'')]"]
  by simp

text \<open>
  C16. An exception of the PDF library propagates: if opening raises, or if the first
  page whose extraction raises does so with \<open>e\<close>, \<open>extrair_texto_pdf\<close> raises \<open>e\<close>.
\<close>

theorem extrair_texto_pdf_raises:
  "pdf_open caminho_pdf = Inl e \<or> pdf_open caminho_pdf = Inr (map Inr paginas @ Inl e # resto) \<Longrightarrow>
     extrair_texto_pdf pdf_open caminho_pdf = Inl e"
  by (auto simp: extrair_texto_pdf_def extrair_paginas_Inl)

theorem extrair_texto_pdf_raises_witness:
  "extrair_texto_pdf (\<lambda>_. Inr [Inr (Some (ascii ''a'')), Inl (Lib_Exception (ascii ''bad page'')), Inl IndexError]) (ascii ''x.pdf'')
     = Inl (Lib_Exception (ascii ''bad page''))"
  by (rule extrair_texto_pdf_raises [where paginas = "[Some (ascii ''a'')]" and resto = "[Inl IndexError]"]) simp

end
