(* ===== verification/Utf8.thy ===== *)
theory Utf8
  imports PyStr "HOL-Library.Word"
begin

text \<open>
  The UTF-8 codec of CPython that the requester calls twice: \<open>prompt.encode("utf-8")\<close>
  (line 65) and \<open>resultado.stdout.decode("utf-8")\<close> (line 68) of \<open>src/main.py\<close>, both in
  the default \<open>strict\<close> error mode. Bytes are \<open>8 word\<close>. The encoder is CPython's
  \<open>utf8_encoder\<close>: one to four bytes per code point, built with the shifts and masks of
  the C code, and a \<open>UnicodeEncodeError\<close> over the maximal run of surrogates that
  starts at the first surrogate. The decoder is CPython's \<open>utf8_decode\<close> of
  \<open>Objects/stringlib/codecs.h\<close>: each sequence is checked byte by byte in the order of
  the C code, and the first ill-formed one raises a \<open>UnicodeDecodeError\<close> whose range
  and reason are those CPython reports. \<open>str_unicode_error\<close> is the \<open>__str__\<close> of both
  exceptions, which the requester embeds in its reply.
\<close>

unbundle bit_operations_syntax

type_synonym byte = "8 word"

datatype decode_reason = Invalid_Start_Byte | Invalid_Continuation_Byte | Unexpected_End_Of_Data

text \<open>
  \<open>Unicode_Encode_Error ch start end\<close>: the character at \<open>start\<close> and the range
  \<open>[start, end)\<close> of the string; \<open>Unicode_Decode_Error b start end r\<close>: the byte at
  \<open>start\<close>, the range of the bytes and the reason.
\<close>

datatype unicode_error =
    Unicode_Encode_Error pychar nat nat
  | Unicode_Decode_Error nat nat nat decode_reason

definition is_surrogate :: "pychar \<Rightarrow> bool" where
  "is_surrogate ch \<longleftrightarrow> 0xD800 \<le> ch \<and> ch \<le> 0xDFFF"

text \<open>A Python \<open>str\<close> holds code points up to \<open>0x10FFFF\<close>.\<close>

definition py_str_ok :: "pystr \<Rightarrow> bool" where
  "py_str_ok s \<longleftrightarrow> (\<forall>ch\<in>set s. ch \<le> 0x10FFFF)"

subsection \<open>Encoding\<close>

definition utf8_encode_char :: "pychar \<Rightarrow> byte list" where
  "utf8_encode_char ch =
     (if ch < 0x80 then [of_nat ch]
      else if ch < 0x800 then
        [of_nat (0xC0 OR drop_bit 6 ch), of_nat (0x80 OR (ch AND 0x3F))]
      else if ch < 0x10000 then
        [of_nat (0xE0 OR drop_bit 12 ch), of_nat (0x80 OR (drop_bit 6 ch AND 0x3F)),
         of_nat (0x80 OR (ch AND 0x3F))]
      else
        [of_nat (0xF0 OR drop_bit 18 ch), of_nat (0x80 OR (drop_bit 12 ch AND 0x3F)),
         of_nat (0x80 OR (drop_bit 6 ch AND 0x3F)), of_nat (0x80 OR (ch AND 0x3F))])"

text \<open>
  The same bytes in the arithmetic form of RFC 3629, the reference the encoder is
  proved against.
\<close>

definition utf8_units :: "pychar \<Rightarrow> nat list" where
  "utf8_units ch =
     (if ch < 0x80 then [ch]
      else if ch < 0x800 then [0xC0 + ch div 64, 0x80 + ch mod 64]
      else if ch < 0x10000 then [0xE0 + ch div 4096, 0x80 + ch div 64 mod 64, 0x80 + ch mod 64]
      else [0xF0 + ch div 262144, 0x80 + ch div 4096 mod 64, 0x80 + ch div 64 mod 64,
            0x80 + ch mod 64])"

fun utf8_encode_from :: "nat \<Rightarrow> pystr \<Rightarrow> unicode_error + byte list" where
  "utf8_encode_from i [] = Inr []"
| "utf8_encode_from i (ch # s) =
     (if is_surrogate ch
      then Inl (Unicode_Encode_Error ch i (Suc i + length (takeWhile is_surrogate s)))
      else (case utf8_encode_from (Suc i) s of
              Inl e \<Rightarrow> Inl e
            | Inr bs \<Rightarrow> Inr (utf8_encode_char ch @ bs)))"

definition utf8_encode :: "pystr \<Rightarrow> unicode_error + byte list" where
  "utf8_encode s = utf8_encode_from 0 s"

subsection \<open>Decoding\<close>

definition is_continuation :: "nat \<Rightarrow> bool" where
  "is_continuation b \<longleftrightarrow> 0x80 \<le> b \<and> b < 0xC0"

text \<open>
  One step of the decoder on the remaining bytes (not empty): the code point and the
  number of bytes it takes, or the reason and the length of the error range
  (\<open>InvalidStart\<close> one byte, \<open>InvalidContinuation\<close>\<open>k\<close> the \<open>k\<close> bytes before the bad one,
  an incomplete sequence at the end of the data all the remaining bytes).
\<close>

definition utf8_seq :: "nat list \<Rightarrow> (decode_reason \<times> nat) + (pychar \<times> nat)" where
  "utf8_seq s =
     (let ch = hd s; k = length s in
      if ch < 0x80 then Inr (ch, 1)
      else if ch < 0xE0 then
        (if ch < 0xC2 then Inl (Invalid_Start_Byte, 1)
         else if k < 2 then Inl (Unexpected_End_Of_Data, k)
         else if \<not> is_continuation (s ! 1) then Inl (Invalid_Continuation_Byte, 1)
         else Inr (push_bit 6 ch + s ! 1 - (push_bit 6 0xC0 + 0x80), 2))
      else if ch < 0xF0 then
        (if k < 3 then
           (if k < 2 then Inl (Unexpected_End_Of_Data, k)
            else if \<not> is_continuation (s ! 1) \<or> (if s ! 1 < 0xA0 then ch = 0xE0 else ch = 0xED)
            then Inl (Invalid_Continuation_Byte, 1)
            else Inl (Unexpected_End_Of_Data, k))
         else if \<not> is_continuation (s ! 1) then Inl (Invalid_Continuation_Byte, 1)
         else if (if ch = 0xE0 then s ! 1 < 0xA0 else ch = 0xED \<and> 0xA0 \<le> s ! 1)
         then Inl (Invalid_Continuation_Byte, 1)
         else if \<not> is_continuation (s ! 2) then Inl (Invalid_Continuation_Byte, 2)
         else Inr (push_bit 12 ch + push_bit 6 (s ! 1) + s ! 2 -
                   (push_bit 12 0xE0 + push_bit 6 0x80 + 0x80), 3))
      else if ch < 0xF5 then
        (if k < 4 then
           (if k < 2 then Inl (Unexpected_End_Of_Data, k)
            else if \<not> is_continuation (s ! 1) \<or> (if s ! 1 < 0x90 then ch = 0xF0 else ch = 0xF4)
            then Inl (Invalid_Continuation_Byte, 1)
            else if k < 3 then Inl (Unexpected_End_Of_Data, k)
            else if \<not> is_continuation (s ! 2) then Inl (Invalid_Continuation_Byte, 2)
            else Inl (Unexpected_End_Of_Data, k))
         else if \<not> is_continuation (s ! 1) then Inl (Invalid_Continuation_Byte, 1)
         else if (if ch = 0xF0 then s ! 1 < 0x90 else ch = 0xF4 \<and> 0x90 \<le> s ! 1)
         then Inl (Invalid_Continuation_Byte, 1)
         else if \<not> is_continuation (s ! 2) then Inl (Invalid_Continuation_Byte, 2)
         else if \<not> is_continuation (s ! 3) then Inl (Invalid_Continuation_Byte, 3)
         else Inr (push_bit 18 ch + push_bit 12 (s ! 1) + push_bit 6 (s ! 2) + s ! 3 -
                   (push_bit 18 0xF0 + push_bit 12 0x80 + push_bit 6 0x80 + 0x80), 4))
      else Inl (Invalid_Start_Byte, 1))"

function utf8_decode_from :: "nat \<Rightarrow> nat list \<Rightarrow> unicode_error + pystr" where
  "utf8_decode_from i s =
     (if s = [] then Inr []
      else (case utf8_seq s of
              Inl (r, n) \<Rightarrow> Inl (Unicode_Decode_Error (hd s) i (i + n) r)
            | Inr (ch, n) \<Rightarrow>
                (case utf8_decode_from (i + n) (drop n s) of
                   Inl e \<Rightarrow> Inl e
                 | Inr cs \<Rightarrow> Inr (ch # cs))))"
  by pat_completeness auto
termination
  by (relation "measure (\<lambda>(i, s). length s)")
    (auto simp: utf8_seq_def Let_def split: if_splits)

declare utf8_decode_from.simps [simp del]

definition utf8_decode :: "byte list \<Rightarrow> unicode_error + pystr" where
  "utf8_decode bs = utf8_decode_from 0 (map unat bs)"

subsection \<open>The messages of the exceptions\<close>

definition hex_digit :: "nat \<Rightarrow> pychar" where
  "hex_digit d = (if d < 10 then 48 + d else 87 + d)"

fun py_hex_nat :: "nat \<Rightarrow> pystr" where
  "py_hex_nat n = (if n < 16 then [hex_digit n] else py_hex_nat (n div 16) @ [hex_digit (n mod 16)])"

declare py_hex_nat.simps [simp del]

text \<open>\<open>%0wx\<close> of \<open>PyUnicode_FromFormat\<close>: lower-case hexadecimal, padded with zeros.\<close>

definition fmt_hex :: "nat \<Rightarrow> nat \<Rightarrow> pystr" where
  "fmt_hex w n = (let d = py_hex_nat n in replicate (w - length d) 48 @ d)"

definition reason_str :: "decode_reason \<Rightarrow> pystr" where
  "reason_str r = (case r of
      Invalid_Start_Byte \<Rightarrow> ascii ''invalid start byte''
    | Invalid_Continuation_Byte \<Rightarrow> ascii ''invalid continuation byte''
    | Unexpected_End_Of_Data \<Rightarrow> ascii ''unexpected end of data'')"

definition codec_utf8 :: pystr where
  "codec_utf8 = [39] @ ascii ''utf-8'' @ [39] @ ascii '' codec can'' @ [39] @ ascii ''t ''"

definition char_escape :: "pychar \<Rightarrow> pystr" where
  "char_escape ch =
     (if ch \<le> 0xFF then [92] @ ascii ''x'' @ fmt_hex 2 ch
      else if ch \<le> 0xFFFF then [92] @ ascii ''u'' @ fmt_hex 4 ch
      else [92] @ ascii ''U'' @ fmt_hex 8 ch)"

definition str_unicode_error :: "unicode_error \<Rightarrow> pystr" where
  "str_unicode_error e = (case e of
      Unicode_Encode_Error ch a b \<Rightarrow>
        (if b = a + 1
         then codec_utf8 @ ascii ''encode character '' @ [39] @ char_escape ch @ [39] @
              ascii '' in position '' @ py_str_nat a
         else codec_utf8 @ ascii ''encode characters in position '' @ py_str_nat a @
              ascii ''-'' @ py_str_nat (b - 1))
        @ ascii '': surrogates not allowed''
    | Unicode_Decode_Error byte a b r \<Rightarrow>
        (if b = a + 1
         then codec_utf8 @ ascii ''decode byte 0x'' @ fmt_hex 2 byte @ ascii '' in position '' @
              py_str_nat a
         else codec_utf8 @ ascii ''decode bytes in position '' @ py_str_nat a @ ascii ''-'' @
              py_str_nat (b - 1))
        @ ascii '': '' @ reason_str r)"


subsection \<open>Arithmetic of the encoding\<close>

lemma or_push_bit_small:
  assumes "b < 2 ^ k" shows "push_bit k a OR b = push_bit k a + (b::nat)"
proof -
  from assms have b: "take_bit k b = b" by (simp add: take_bit_nat_eq_self)
  have "push_bit k a AND b = 0"
    by (subst b [symmetric], rule bit_eqI) (auto simp: bit_and_iff bit_push_bit_iff bit_take_bit_iff)
  then show ?thesis by (simp add: disjunctive_add_eq_or)
qed
lemma and_3F: "(n::nat) AND 0x3F = n mod 64"
  using take_bit_eq_mask [of 6 n] by (simp add: take_bit_eq_mod mask_eq_exp_minus_1)
lemma or_lead:
  "(0x80::nat) OR n mod 64 = 0x80 + n mod 64"
  "n < 32 \<Longrightarrow> (0xC0::nat) OR n = 0xC0 + n"
  "n < 16 \<Longrightarrow> (0xE0::nat) OR n = 0xE0 + n"
  "n < 8 \<Longrightarrow> (0xF0::nat) OR n = 0xF0 + n"
  using or_push_bit_small [of "n mod 64" 6 2] or_push_bit_small [of n 5 6]
    or_push_bit_small [of n 4 14] or_push_bit_small [of n 3 30]
  by (simp_all add: push_bit_eq_mult)
lemma utf8_encode_char_units:
  assumes "ch \<le> 0x10FFFF"
  shows "utf8_encode_char ch = map of_nat (utf8_units ch)"
  using assms
  by (auto simp: utf8_encode_char_def utf8_units_def and_3F or_lead drop_bit_nat_def
      less_mult_imp_div_less div_mult2_eq [symmetric])

lemma div_4096_64: "(n::nat) div 4096 = n div 64 div 64" "n div 262144 = n div 64 div 64 div 64"
  by (simp_all add: div_mult2_eq [symmetric])

lemma digit_64: "c < 64 \<Longrightarrow> ((x::nat) * 64 + c) div 64 = x" "c < 64 \<Longrightarrow> (x * 64 + c) mod 64 = c"
  by simp_all

lemma utf8_units_2: "2 \<le> A \<Longrightarrow> A < 32 \<Longrightarrow> B < 64 \<Longrightarrow> utf8_units (A * 64 + B) = [0xC0 + A, 0x80 + B]"
  by (simp add: utf8_units_def)

lemma utf8_units_3:
  "A < 16 \<Longrightarrow> B < 64 \<Longrightarrow> C < 64 \<Longrightarrow> 0x800 \<le> A * 4096 + B * 64 + C \<Longrightarrow>
   utf8_units (A * 4096 + B * 64 + C) = [0xE0 + A, 0x80 + B, 0x80 + C]"
  using digit_64 [of C "A * 64 + B"] digit_64 [of B A]
  by (simp add: utf8_units_def div_4096_64 algebra_simps)

lemma utf8_units_4:
  "B < 64 \<Longrightarrow> C < 64 \<Longrightarrow> D < 64 \<Longrightarrow> 0x10000 \<le> A * 262144 + B * 4096 + C * 64 + D \<Longrightarrow>
   utf8_units (A * 262144 + B * 4096 + C * 64 + D) = [0xF0 + A, 0x80 + B, 0x80 + C, 0x80 + D]"
  using digit_64 [of D "(A * 64 + B) * 64 + C"] digit_64 [of C "A * 64 + B"] digit_64 [of B A]
  by (simp add: utf8_units_def div_4096_64 algebra_simps)

lemma utf8_seq_2:
  "2 \<le> A \<Longrightarrow> A < 32 \<Longrightarrow> B < 64 \<Longrightarrow>
   utf8_seq ((0xC0 + A) # (0x80 + B) # rest) = Inr (A * 64 + B, 2)"
  by (simp add: utf8_seq_def Let_def is_continuation_def push_bit_eq_mult)

lemma utf8_seq_3:
  "A < 16 \<Longrightarrow> B < 64 \<Longrightarrow> C < 64 \<Longrightarrow> 0x800 \<le> A * 4096 + B * 64 + C \<Longrightarrow>
   \<not> is_surrogate (A * 4096 + B * 64 + C) \<Longrightarrow>
   utf8_seq ((0xE0 + A) # (0x80 + B) # (0x80 + C) # rest) = Inr (A * 4096 + B * 64 + C, 3)"
  by (auto simp: utf8_seq_def Let_def is_continuation_def push_bit_eq_mult is_surrogate_def)

lemma utf8_seq_4:
  "A < 5 \<Longrightarrow> B < 64 \<Longrightarrow> C < 64 \<Longrightarrow> D < 64 \<Longrightarrow>
   0x10000 \<le> A * 262144 + B * 4096 + C * 64 + D \<Longrightarrow> A * 262144 + B * 4096 + C * 64 + D \<le> 0x10FFFF \<Longrightarrow>
   utf8_seq ((0xF0 + A) # (0x80 + B) # (0x80 + C) # (0x80 + D) # rest) =
     Inr (A * 262144 + B * 4096 + C * 64 + D, 4)"
  by (simp add: utf8_seq_def Let_def is_continuation_def push_bit_eq_mult)

lemma digits_64:
  "(n::nat) = n div 64 * 64 + n mod 64"
  "n = n div 4096 * 4096 + n div 64 mod 64 * 64 + n mod 64"
  "n = n div 262144 * 262144 + n div 4096 mod 64 * 4096 + n div 64 mod 64 * 64 + n mod 64"
  using div_mult_mod_eq [of n 64] div_mult_mod_eq [of "n div 64" 64]
    div_mult_mod_eq [of "n div 64 div 64" 64]
  unfolding div_4096_64 by linarith+

lemma utf8_seq_units:
  assumes "ch \<le> 0x10FFFF" and "\<not> is_surrogate ch"
  shows "utf8_seq (utf8_units ch @ rest) = Inr (ch, length (utf8_units ch))"
proof -
  consider "ch < 0x80" | "0x80 \<le> ch" "ch < 0x800" | "0x800 \<le> ch" "ch < 0x10000" | "0x10000 \<le> ch"
    by linarith
  then show ?thesis
  proof cases
    case 1
    then show ?thesis by (simp add: utf8_units_def utf8_seq_def)
  next
    case 2
    then have u: "utf8_units ch = [0xC0 + ch div 64, 0x80 + ch mod 64]"
      and "2 \<le> ch div 64" "ch div 64 < 32"
      by (auto simp: utf8_units_def)
    with utf8_seq_2 [of "ch div 64" "ch mod 64" rest] show ?thesis
      by (simp add: u flip: digits_64(1))
  next
    case 3
    then have u: "utf8_units ch = [0xE0 + ch div 4096, 0x80 + ch div 64 mod 64, 0x80 + ch mod 64]"
      and "ch div 4096 < 16"
      by (auto simp: utf8_units_def)
    with 3 assms(2) utf8_seq_3 [of "ch div 4096" "ch div 64 mod 64" "ch mod 64" rest] show ?thesis
      by (simp add: u flip: digits_64(2))
  next
    case 4
    with assms(1) have u: "utf8_units ch = [0xF0 + ch div 262144, 0x80 + ch div 4096 mod 64,
        0x80 + ch div 64 mod 64, 0x80 + ch mod 64]"
      and "ch div 262144 < 5"
      by (auto simp: utf8_units_def)
    with 4 assms(1) utf8_seq_4 [of "ch div 262144" "ch div 4096 mod 64" "ch div 64 mod 64" "ch mod 64" rest]
    show ?thesis
      by (simp add: u flip: digits_64(3))
  qed
qed

subsection \<open>One step of the decoder\<close>

lemma utf8_bytes_2:
  assumes "\<not> b0 < 0xC2" "b0 < 0xE0" "is_continuation b1"
  defines "ch \<equiv> push_bit 6 b0 + b1 - (push_bit 6 0xC0 + 0x80)"
  shows "utf8_units ch = [b0, b1] \<and> ch \<le> 0x10FFFF \<and> \<not> is_surrogate ch"
proof -
  have "ch = (b0 - 192) * 64 + (b1 - 128)" "2 \<le> b0 - 192" "b0 - 192 < 32" "b1 - 128 < 64"
    using assms by (auto simp: push_bit_eq_mult is_continuation_def)
  with utf8_units_2 [of "b0 - 192" "b1 - 128"] assms(1-3) show ?thesis
    by (auto simp: is_surrogate_def is_continuation_def)
qed

lemma utf8_bytes_3:
  assumes "\<not> b0 < 0xE0" "b0 < 0xF0" "is_continuation b1" "is_continuation b2"
    and "\<not> (if b0 = 0xE0 then b1 < 0xA0 else b0 = 0xED \<and> 0xA0 \<le> b1)"
  defines "ch \<equiv> push_bit 12 b0 + push_bit 6 b1 + b2 - (push_bit 12 0xE0 + push_bit 6 0x80 + 0x80)"
  shows "utf8_units ch = [b0, b1, b2] \<and> ch \<le> 0x10FFFF \<and> \<not> is_surrogate ch"
proof -
  have ch: "ch = (b0 - 224) * 4096 + (b1 - 128) * 64 + (b2 - 128)"
    using assms(1,3,4) by (auto simp: ch_def push_bit_eq_mult is_continuation_def)
  have lo: "0x800 \<le> ch"
    using assms(1-5) unfolding ch by (auto simp: is_continuation_def split: if_splits)
  have ns: "\<not> is_surrogate ch"
  proof -
    consider "b0 < 0xED" | "b0 = 0xED" | "0xED < b0" by linarith
    then show ?thesis
      using assms(1-5) unfolding ch is_surrogate_def is_continuation_def by cases auto
  qed
  have "utf8_units ch = [b0, b1, b2]"
    using utf8_units_3 [of "b0 - 224" "b1 - 128" "b2 - 128"] assms(1-4) lo
    unfolding ch by (auto simp: is_continuation_def)
  with ns show ?thesis using assms(2-4) unfolding ch is_continuation_def by (simp; linarith)
qed

lemma utf8_bytes_4:
  assumes "\<not> b0 < 0xF0" "b0 < 0xF5" "is_continuation b1" "is_continuation b2" "is_continuation b3"
    and "\<not> (if b0 = 0xF0 then b1 < 0x90 else b0 = 0xF4 \<and> 0x90 \<le> b1)"
  defines "ch \<equiv> push_bit 18 b0 + push_bit 12 b1 + push_bit 6 b2 + b3 -
                (push_bit 18 0xF0 + push_bit 12 0x80 + push_bit 6 0x80 + 0x80)"
  shows "utf8_units ch = [b0, b1, b2, b3] \<and> ch \<le> 0x10FFFF \<and> \<not> is_surrogate ch"
proof -
  have ch: "ch = (b0 - 240) * 262144 + (b1 - 128) * 4096 + (b2 - 128) * 64 + (b3 - 128)"
    using assms(1,3-5) by (auto simp: ch_def push_bit_eq_mult is_continuation_def)
  have lo: "0x10000 \<le> ch"
    using assms(1-6) unfolding ch by (auto simp: is_continuation_def split: if_splits)
  then have ns: "\<not> is_surrogate ch" by (simp add: is_surrogate_def)
  have hi: "ch \<le> 0x10FFFF"
  proof -
    consider "b0 < 0xF4" | "b0 = 0xF4" using assms(2) by linarith
    then show ?thesis
      using assms(1-6) unfolding ch is_continuation_def by cases auto
  qed
  have "utf8_units ch = [b0, b1, b2, b3]"
    using utf8_units_4 [of "b1 - 128" "b2 - 128" "b3 - 128" "b0 - 240"] assms(1-5) lo
    unfolding ch by (auto simp: is_continuation_def)
  with hi ns show ?thesis by simp
qed

lemma utf8_units_1: "ch < 0x80 \<Longrightarrow> utf8_units ch = [ch]"
  by (simp add: utf8_units_def)

lemma list_shapes_4:
  assumes "s \<noteq> []"
  obtains b0 where "s = [b0]" | b0 b1 where "s = [b0, b1]" | b0 b1 b2 where "s = [b0, b1, b2]"
  | b0 b1 b2 b3 r where "s = b0 # b1 # b2 # b3 # r"
  using assms by (metis list.exhaust)

lemma utf8_seq_Inr:
  assumes "utf8_seq s = Inr (ch, n)" and "s \<noteq> []"
  shows "0 < n \<and> n \<le> length s \<and> take n s = utf8_units ch \<and> ch \<le> 0x10FFFF \<and> \<not> is_surrogate ch"
  using assms(2)
proof (cases rule: list_shapes_4)
  case (1 b0)
  with assms(1) show ?thesis
    by (auto simp: utf8_seq_def utf8_units_1 is_surrogate_def split: if_splits)
next
  case (2 b0 b1)
  with assms(1) utf8_bytes_2 [of b0 b1] show ?thesis
    by (auto simp: utf8_seq_def Let_def utf8_units_1 is_surrogate_def split: if_splits)
next
  case (3 b0 b1 b2)
  with assms(1) utf8_bytes_2 [of b0 b1] utf8_bytes_3 [of b0 b1 b2] show ?thesis
    by (auto simp: utf8_seq_def Let_def utf8_units_1 is_surrogate_def split: if_splits)
next
  case (4 b0 b1 b2 b3 r)
  with assms(1) utf8_bytes_2 [of b0 b1] utf8_bytes_3 [of b0 b1 b2] utf8_bytes_4 [of b0 b1 b2 b3]
  show ?thesis
    by (auto simp: utf8_seq_def Let_def utf8_units_1 is_surrogate_def split: if_splits)
qed


subsection \<open>The decoding loop\<close>

lemma utf8_decode_from_Nil [simp]: "utf8_decode_from i [] = Inr []"
  by (simp add: utf8_decode_from.simps)

lemma utf8_decode_from_Cons [simp]:
  "utf8_decode_from i (b # s) =
     (case utf8_seq (b # s) of
        Inl (r, n) \<Rightarrow> Inl (Unicode_Decode_Error b i (i + n) r)
      | Inr (ch, n) \<Rightarrow>
          (case utf8_decode_from (i + n) (drop n (b # s)) of Inl e \<Rightarrow> Inl e | Inr cs \<Rightarrow> Inr (ch # cs)))"
  by (subst utf8_decode_from.simps) (simp split: sum.split)

lemma utf8_decode_from_step:
  assumes "utf8_seq s = Inr (ch, n)" and "s \<noteq> []"
  shows "utf8_decode_from i s =
           (case utf8_decode_from (i + n) (drop n s) of Inl e \<Rightarrow> Inl e | Inr cs \<Rightarrow> Inr (ch # cs))"
  using assms by (subst utf8_decode_from.simps) simp

lemma utf8_units_not_Nil [simp]: "utf8_units ch \<noteq> []"
  by (simp add: utf8_units_def)

lemma utf8_units_lt_256:
  assumes "ch \<le> 0x10FFFF" and "u \<in> set (utf8_units ch)"
  shows "u < 256"
proof -
  have "ch < 0x800 \<Longrightarrow> ch div 64 < 32" "ch < 0x10000 \<Longrightarrow> ch div 4096 < 16" "ch div 262144 < 5"
    using assms(1) by (simp_all add: div_less_iff_less_mult)
  with assms(2) show ?thesis by (auto simp: utf8_units_def split: if_splits)
qed

lemma length_utf8_units: "1 \<le> length (utf8_units ch) \<and> length (utf8_units ch) \<le> 4"
  by (simp add: utf8_units_def)

lemma map_unat_utf8_encode_char:
  "ch \<le> 0x10FFFF \<Longrightarrow> map unat (utf8_encode_char ch) = utf8_units ch"
  by (auto simp: utf8_encode_char_units unat_of_nat intro!: map_idI dest: utf8_units_lt_256)

lemma utf8_encode_from_ok:
  "\<forall>ch\<in>set s. \<not> is_surrogate ch \<Longrightarrow> utf8_encode_from i s = Inr (concat (map utf8_encode_char s))"
  by (induction i s rule: utf8_encode_from.induct) auto

lemma utf8_encode_from_Inr:
  "utf8_encode_from i s = Inr bs \<longleftrightarrow> (\<forall>ch\<in>set s. \<not> is_surrogate ch) \<and> bs = concat (map utf8_encode_char s)"
proof
  show "utf8_encode_from i s = Inr bs \<Longrightarrow> (\<forall>ch\<in>set s. \<not> is_surrogate ch) \<and> bs = concat (map utf8_encode_char s)"
    by (induction i s arbitrary: bs rule: utf8_encode_from.induct) (auto split: if_splits sum.splits)
qed (simp add: utf8_encode_from_ok)

lemma utf8_encode_from_Inl:
  "utf8_encode_from i s = Inl e \<longleftrightarrow>
     (\<exists>ch\<in>set s. is_surrogate ch) \<and>
     e = Unicode_Encode_Error (hd (dropWhile (Not \<circ> is_surrogate) s))
           (i + length (takeWhile (Not \<circ> is_surrogate) s))
           (i + length (takeWhile (Not \<circ> is_surrogate) s) +
              length (takeWhile is_surrogate (dropWhile (Not \<circ> is_surrogate) s)))"
  by (induction i s rule: utf8_encode_from.induct) (auto split: sum.splits)

lemma utf8_decode_from_units:
  "\<forall>ch\<in>set s. ch \<le> 0x10FFFF \<and> \<not> is_surrogate ch \<Longrightarrow>
     utf8_decode_from i (concat (map utf8_units s)) = Inr s"
proof (induction s arbitrary: i)
  case Nil
  then show ?case by simp
next
  case (Cons ch s)
  then have "utf8_seq (utf8_units ch @ concat (map utf8_units s)) = Inr (ch, length (utf8_units ch))"
    by (simp add: utf8_seq_units)
  with Cons show ?case by (simp add: utf8_decode_from_step del: utf8_decode_from_Cons)
qed

lemma utf8_seq_Inl:
  "utf8_seq s = Inl (r, n) \<Longrightarrow> s \<noteq> [] \<Longrightarrow> 0 < n \<and> n \<le> length s"
  by (cases s) (auto simp: utf8_seq_def Let_def split: if_splits)

lemma utf8_seq_prefix:
  assumes "utf8_seq s = Inr (ch, n)" and "s \<noteq> []"
  shows "utf8_seq (take n s @ t) = Inr (ch, n)"
proof -
  from utf8_seq_Inr [OF assms] have u: "take n s = utf8_units ch" and le: "n \<le> length s"
    and ok: "ch \<le> 0x10FFFF" "\<not> is_surrogate ch" by auto
  from le have "length (take n s) = n" by simp
  then have len: "length (utf8_units ch) = n" by (simp only: u)
  show ?thesis
    unfolding u using utf8_seq_units [OF ok, of t] by (simp only: len)
qed

lemma utf8_decode_from_Inl:
  "utf8_decode_from i s = Inl e \<Longrightarrow>
     \<exists>b a z r. e = Unicode_Decode_Error b a z r \<and> i \<le> a \<and> a < z \<and> z \<le> i + length s \<and>
       b = s ! (a - i) \<and> (\<exists>cs. utf8_decode_from i (take (a - i) s) = Inr cs)"
proof (induction i s rule: utf8_decode_from.induct)
  case (1 i s)
  show ?case
  proof (cases "s = []")
    case True
    with "1.prems" show ?thesis by simp
  next
    case False
    show ?thesis
    proof (cases "utf8_seq s")
      case (Inl rn)
      then obtain r n where seq: "utf8_seq s = Inl (r, n)" by (cases rn) auto
      with False "1.prems" have "e = Unicode_Decode_Error (hd s) i (i + n) r"
        by (subst (asm) utf8_decode_from.simps) simp
      with utf8_seq_Inl [OF seq False] False show ?thesis
        by (auto simp: hd_conv_nth)
    next
      case (Inr cn)
      then obtain ch n where seq: "utf8_seq s = Inr (ch, n)" by (cases cn) auto
      with False "1.prems" have rest: "utf8_decode_from (i + n) (drop n s) = Inl e"
        by (auto simp: utf8_decode_from_step split: sum.splits)
      from "1.IH" [OF False seq refl rest] obtain b a z r cs where
        e: "e = Unicode_Decode_Error b a z r" and bounds: "i + n \<le> a" "a < z" "z \<le> i + n + length (drop n s)"
        and b: "b = drop n s ! (a - (i + n))"
        and pre: "utf8_decode_from (i + n) (take (a - (i + n)) (drop n s)) = Inr cs"
        by blast
      from utf8_seq_Inr [OF seq False] have n: "0 < n" "n \<le> length s" by auto
      have eq: "a - i = n + (a - (i + n))" using bounds(1) by linarith
      have take: "take (a - i) s = take n s @ take (a - (i + n)) (drop n s)"
        unfolding eq by (rule take_add)
      have "utf8_seq (take (a - i) s) = Inr (ch, n)"
        unfolding take by (rule utf8_seq_prefix [OF seq False])
      moreover have "take (a - i) s \<noteq> []" using n bounds(1) False by simp
      ultimately have "utf8_decode_from i (take (a - i) s) = Inr (ch # cs)"
        using pre n by (simp add: utf8_decode_from_step take)
      with e bounds b n show ?thesis
        by (intro exI [of _ b] exI [of _ a] exI [of _ z] exI [of _ r]) auto
    qed
  qed
qed

subsection \<open>Whole strings\<close>

lemma utf8_decode_from_Inr:
  "utf8_decode_from i s = Inr cs \<Longrightarrow>
     concat (map utf8_units cs) = s \<and> (\<forall>ch\<in>set cs. ch \<le> 0x10FFFF \<and> \<not> is_surrogate ch)"
proof (induction i s arbitrary: cs rule: utf8_decode_from.induct)
  case (1 i s)
  show ?case
  proof (cases "s = []")
    case True
    with "1.prems" show ?thesis by simp
  next
    case False
    then obtain ch n where seq: "utf8_seq s = Inr (ch, n)"
      using "1.prems" by (subst (asm) utf8_decode_from.simps) (auto split: sum.splits)
    with False "1.prems" obtain cs' where rest: "utf8_decode_from (i + n) (drop n s) = Inr cs'"
      and cs: "cs = ch # cs'"
      by (auto simp: utf8_decode_from_step split: sum.splits)
    from utf8_seq_Inr [OF seq False]
    have "take n s = utf8_units ch" "ch \<le> 0x10FFFF" "\<not> is_surrogate ch" by auto
    moreover from "1.IH" [OF False seq] rest
    have "concat (map utf8_units cs') = drop n s" "\<forall>c\<in>set cs'. c \<le> 0x10FFFF \<and> \<not> is_surrogate c"
      by auto
    ultimately show ?thesis
      using cs append_take_drop_id [of n s] by auto
  qed
qed

lemma concat_map_unat_encode:
  "py_str_ok s \<Longrightarrow> map unat (concat (map utf8_encode_char s)) = concat (map utf8_units s)"
  by (induction s) (simp_all add: py_str_ok_def map_unat_utf8_encode_char)

lemma map_of_nat_units:
  "\<forall>ch\<in>set s. ch \<le> 0x10FFFF \<Longrightarrow> concat (map utf8_encode_char s) = map of_nat (concat (map utf8_units s))"
  by (induction s) (simp_all add: utf8_encode_char_units)

lemma length_utf8_encode_char: "1 \<le> length (utf8_encode_char ch) \<and> length (utf8_encode_char ch) \<le> 4"
  by (simp add: utf8_encode_char_def)

lemma length_concat_utf8_encode_char:
  "length s \<le> length (concat (map utf8_encode_char s)) \<and> length (concat (map utf8_encode_char s)) \<le> 4 * length s"
proof (induction s)
  case Nil
  then show ?case by simp
next
  case (Cons ch s)
  with length_utf8_encode_char [of ch] show ?case by simp
qed


subsection \<open>The messages\<close>

lemma hex_digit_range:
  "d < 16 \<Longrightarrow> (48 \<le> hex_digit d \<and> hex_digit d < 58) \<or> (97 \<le> hex_digit d \<and> hex_digit d < 103)"
  by (simp add: hex_digit_def)

lemma py_hex_nat_digits: "c \<in> set (py_hex_nat n) \<Longrightarrow> (48 \<le> c \<and> c < 58) \<or> (97 \<le> c \<and> c < 103)"
proof (induction n rule: py_hex_nat.induct)
  case (1 n)
  with hex_digit_range [of n] hex_digit_range [of "n mod 16"] show ?case
    by (subst (asm) py_hex_nat.simps) (auto split: if_splits)
qed

lemma no_break_py_str_nat: "\<forall>c\<in>set (py_str_nat n). \<not> py_is_linebreak c"
  by (auto simp: py_is_linebreak_iff dest: py_str_nat_digits)

lemma no_break_fmt_hex: "\<forall>c\<in>set (fmt_hex w n). \<not> py_is_linebreak c"
  by (auto simp: fmt_hex_def Let_def py_is_linebreak_iff dest: py_hex_nat_digits)

lemma no_break_char_escape: "\<forall>c\<in>set (char_escape ch). \<not> py_is_linebreak c"
  by (simp add: char_escape_def no_break_fmt_hex, simp add: py_is_linebreak_iff)

lemma no_break_reason_str: "\<forall>c\<in>set (reason_str r). \<not> py_is_linebreak c"
  by (cases r) (simp_all add: reason_str_def py_is_linebreak_iff)

lemma str_unicode_error_no_break: "\<forall>c\<in>set (str_unicode_error e). \<not> py_is_linebreak c"
  by (cases e) (simp_all add: str_unicode_error_def codec_utf8_def no_break_py_str_nat no_break_fmt_hex
      no_break_char_escape no_break_reason_str ball_Un, simp_all add: py_is_linebreak_iff)

lemma hd_str_unicode_error: "str_unicode_error e = 39 # tl (str_unicode_error e)"
  by (simp add: str_unicode_error_def codec_utf8_def split: unicode_error.split)



subsection \<open>Properties of the codec\<close>















end
