(* ===== verification/Requester.thy ===== *)
theory Requester
  imports Utf8
begin

text \<open>
  The outline requester \<open>gerar_topicos_ollama\<close> of \<open>src/main.py\<close> (lines 45--75). The
  prompt is the f-string of the source, code point for code point: a fixed header that
  shows the bullet template, then \<open>texto[:4000]\<close>, then a newline. The external
  process \<open>ollama run modelo\<close> is a parameter \<open>run\<close> from the argument vector and the
  bytes it receives on its input to its outcome: the bytes of its standard output,
  \<open>FileNotFoundError\<close>, or another exception with its message (\<open>str(e)\<close>). The prompt
  is encoded with \<open>prompt.encode("utf-8")\<close> before the process starts, and its output
  decoded with \<open>.decode("utf-8")\<close> (theory \<open>Utf8\<close>); an exception of either is caught
  by \<open>except Exception as e\<close>. The function never raises: each failure becomes a
  diagnostic reply. The lemmas show that no character after the first 4000 of the text
  reaches the model, that the reply is never blank, that a surrogate in the excerpt
  keeps the process from running, and that the process receives the UTF-8 bytes of the
  prompt.
\<close>

definition prompt_cabecalho :: pystr where
  "prompt_cabecalho =
     ascii ''\<newline>Voc'' @ [234] @ ascii '' '' @ [233] @ ascii '' um assistente de estudos.\<newline>Leia o conte'' @ [250] @ ascii ''do abaixo e gere uma lista estruturada de t'' @ [243] @ ascii ''picos e subt'' @ [243] @ ascii ''picos\<newline>no seguinte formato:\<newline>\<newline>* T'' @ [243] @ ascii ''pico 1: Nome do t'' @ [243] @ ascii ''pico\<newline>    + Subt'' @ [243] @ ascii ''pico 1: Nome\<newline>    + Subt'' @ [243] @ ascii ''pico 2: Nome\<newline>\<newline>* T'' @ [243] @ ascii ''pico 2: Nome do t'' @ [243] @ ascii ''pico\<newline>    + Subt'' @ [243] @ ascii ''pico 1: Nome\<newline>    + Subt'' @ [243] @ ascii ''pico 2: Nome\<newline>\<newline>Conte'' @ [250] @ ascii ''do:\<newline>''"

definition montar_prompt :: "pystr \<Rightarrow> pystr" where
  "montar_prompt texto = prompt_cabecalho @ take 4000 texto @ [10]"

datatype proc_outcome = Proc_Output "byte list" | Proc_Not_Found | Proc_Exception pystr

definition modelo_padrao :: pystr where
  "modelo_padrao = ascii ''codellama''"

definition msg_sem_resposta :: pystr where
  "msg_sem_resposta = [9888, 65039] @ ascii '' Nenhuma resposta foi gerada pelo Ollama.''"

definition msg_ollama_ausente :: pystr where
  "msg_ollama_ausente = [10060] @ ascii '' Ollama n'' @ [227] @
     ascii ''o encontrado. Certifique-se de que est'' @ [225] @ ascii '' instalado e no PATH.''"

definition msg_erro_ollama :: pystr where
  "msg_erro_ollama = [10060] @ ascii '' Erro ao chamar Ollama: ''"

definition gerar_topicos_ollama ::
  "(pystr list \<Rightarrow> byte list \<Rightarrow> proc_outcome) \<Rightarrow> pystr \<Rightarrow> pystr \<Rightarrow> pystr" where
  "gerar_topicos_ollama run texto modelo =
     (let prompt = montar_prompt texto
      in (case utf8_encode prompt of
            Inl e \<Rightarrow> msg_erro_ollama @ str_unicode_error e
          | Inr entrada \<Rightarrow>
              (case run [ascii ''ollama'', ascii ''run'', modelo] entrada of
                 Proc_Output saida \<Rightarrow>
                   (case utf8_decode saida of
                      Inl e \<Rightarrow> msg_erro_ollama @ str_unicode_error e
                    | Inr texto_saida \<Rightarrow>
                        (let resposta = py_strip texto_saida
                         in if resposta = [] then msg_sem_resposta else resposta))
               | Proc_Not_Found \<Rightarrow> msg_ollama_ausente
               | Proc_Exception e \<Rightarrow> msg_erro_ollama @ e)))"

lemmas requester_simps [py_simps] = montar_prompt_def prompt_cabecalho_def
  msg_sem_resposta_def msg_ollama_ausente_def msg_erro_ollama_def modelo_padrao_def

subsection \<open>Lemmas\<close>

text \<open>Only the first 4000 characters of the text reach the process.\<close>

lemma montar_prompt_take: "montar_prompt (take 4000 texto) = montar_prompt texto"
  by (simp add: montar_prompt_def)

lemma prompt_cabecalho_ok: "\<forall>ch\<in>set prompt_cabecalho. ch \<le> 0x10FFFF \<and> \<not> is_surrogate ch"
  by (simp add: prompt_cabecalho_def is_surrogate_def)

lemma utf8_encode_prompt:
  assumes "\<forall>ch\<in>set (take 4000 texto). \<not> is_surrogate ch"
  shows "utf8_encode (montar_prompt texto) = Inr (concat (map utf8_encode_char (montar_prompt texto)))"
proof -
  from assms prompt_cabecalho_ok have "\<forall>ch\<in>set (montar_prompt texto). \<not> is_surrogate ch"
    by (auto simp: montar_prompt_def is_surrogate_def)
  then show ?thesis by (simp add: utf8_encode_def utf8_encode_from_ok)
qed

text \<open>
  Without a surrogate in the excerpt, the prompt encodes, and the process receives its
  UTF-8 bytes: the reply is then the case analysis on the outcome of the process.
\<close>

lemma gerar_topicos_ollama_encoded [py_simps]:
  assumes "\<forall>ch\<in>set (take 4000 texto). \<not> is_surrogate ch"
  shows "gerar_topicos_ollama run texto modelo =
     (case run [ascii ''ollama'', ascii ''run'', modelo] (concat (map utf8_encode_char (montar_prompt texto))) of
        Proc_Output saida \<Rightarrow>
          (case utf8_decode saida of
             Inl e \<Rightarrow> msg_erro_ollama @ str_unicode_error e
           | Inr texto_saida \<Rightarrow>
               (let resposta = py_strip texto_saida in if resposta = [] then msg_sem_resposta else resposta))
      | Proc_Not_Found \<Rightarrow> msg_ollama_ausente
      | Proc_Exception e \<Rightarrow> msg_erro_ollama @ e)"
  using utf8_encode_prompt [OF assms] by (simp add: gerar_topicos_ollama_def)

lemma msgs_not_blank:
  "py_strip msg_sem_resposta \<noteq> []"
  "py_strip msg_ollama_ausente \<noteq> []"
  "py_strip (msg_erro_ollama @ e) \<noteq> []"
  by (rule py_strip_nonspace_hd; simp add: msg_sem_resposta_def msg_ollama_ausente_def
      msg_erro_ollama_def py_isspace_iff)+

subsection \<open>Properties\<close>

text \<open>
  C8. The reply depends on the text only through its first 4000 characters: the requester
  on \<open>texto\<close> and on \<open>texto[:4000]\<close> gives the same reply, whatever the process does.
\<close>

theorem gerar_topicos_ollama_cut_4000:
  "gerar_topicos_ollama run (take 4000 texto) modelo = gerar_topicos_ollama run texto modelo"
  by (simp add: gerar_topicos_ollama_def montar_prompt_take)

text \<open>
  C9. The reply is never blank: a blank or empty output of the process is replaced by a
  diagnostic, and every diagnostic starts with a non-whitespace symbol.
\<close>

theorem gerar_topicos_ollama_not_blank:
  "py_strip (gerar_topicos_ollama run texto modelo) \<noteq> []"
  by (auto simp: gerar_topicos_ollama_def Let_def msgs_not_blank
      split: proc_outcome.split sum.split)

text \<open>
  C10. A surrogate in the first 4000 characters of the text makes
  \<open>prompt.encode("utf-8")\<close> raise before the process is started: the reply, whatever
  the process would do, is the diagnostic with the message of the
  \<open>UnicodeEncodeError\<close>, which names the first surrogate, its position in the prompt
  (after the fixed header) and the end of the run of surrogates there.
\<close>

theorem gerar_topicos_ollama_surrogate:
  assumes "\<exists>ch\<in>set (take 4000 texto). is_surrogate ch"
  shows "gerar_topicos_ollama run texto modelo =
     msg_erro_ollama @ str_unicode_error (Unicode_Encode_Error
       (hd (dropWhile (Not \<circ> is_surrogate) (take 4000 texto)))
       (length prompt_cabecalho + length (takeWhile (Not \<circ> is_surrogate) (take 4000 texto)))
       (length prompt_cabecalho + length (takeWhile (Not \<circ> is_surrogate) (take 4000 texto)) +
          length (takeWhile is_surrogate (dropWhile (Not \<circ> is_surrogate) (take 4000 texto)))))"
proof -
  let ?t = "take 4000 texto" and ?P = "Not \<circ> is_surrogate"
  have hdr: "\<forall>ch\<in>set prompt_cabecalho. ?P ch"
    using prompt_cabecalho_ok by simp
  from assms obtain ch where ch: "ch \<in> set ?t" "\<not> ?P ch" by auto
  have nl: "?P 10" by (simp add: is_surrogate_def)
  have tw: "takeWhile ?P (montar_prompt texto) = prompt_cabecalho @ takeWhile ?P ?t"
    using hdr ch unfolding montar_prompt_def
    by (simp add: takeWhile_append2 takeWhile_append1 [of ch])
  have dw: "dropWhile ?P (montar_prompt texto) = dropWhile ?P ?t @ [10]"
    using hdr ch unfolding montar_prompt_def
    by (simp add: dropWhile_append2 dropWhile_append1 [of ch])
  have ne: "dropWhile ?P ?t \<noteq> []"
    using ch by (auto simp: dropWhile_eq_Nil_conv)
  have "hd (dropWhile ?P ?t @ [10]) = hd (dropWhile ?P ?t)"
    and "takeWhile is_surrogate (dropWhile ?P ?t @ [10]) = takeWhile is_surrogate (dropWhile ?P ?t)"
    using ne nl by (simp_all add: takeWhile_append) (metis takeWhile_eq_all_conv)
  moreover have "\<exists>ch\<in>set (montar_prompt texto). is_surrogate ch"
    using ch by (auto simp: montar_prompt_def)
  ultimately have "utf8_encode (montar_prompt texto) = Inl (Unicode_Encode_Error
       (hd (dropWhile ?P ?t)) (length prompt_cabecalho + length (takeWhile ?P ?t))
       (length prompt_cabecalho + length (takeWhile ?P ?t) + length (takeWhile is_surrogate (dropWhile ?P ?t))))"
    by (simp add: utf8_encode_def utf8_encode_from_Inl tw dw)
  then show ?thesis by (simp add: gerar_topicos_ollama_def)
qed

theorem gerar_topicos_ollama_surrogate_witness:
  "gerar_topicos_ollama (\<lambda>_ _. Proc_Not_Found) [65, 0xD800] modelo_padrao =
     msg_erro_ollama @ str_unicode_error (Unicode_Encode_Error 0xD800 (length prompt_cabecalho + 1)
       (length prompt_cabecalho + 2))"
  using gerar_topicos_ollama_surrogate [of "[65, 0xD800]" "\<lambda>_ _. Proc_Not_Found" modelo_padrao]
  by (simp add: is_surrogate_def)

text \<open>
  C11. When the excerpt has no surrogate, the process \<open>ollama run modelo\<close> receives on
  its input exactly the UTF-8 bytes of the prompt (RFC 3629), and when it prints bytes
  the reply is their decoding stripped of whitespace, \<open>msg_sem_resposta\<close> if that is
  empty, or the diagnostic with the message of the \<open>UnicodeDecodeError\<close>.
\<close>

theorem gerar_topicos_ollama_output:
  assumes "py_str_ok texto" and "\<forall>ch\<in>set (take 4000 texto). \<not> is_surrogate ch"
    and "run [ascii ''ollama'', ascii ''run'', modelo] (map of_nat (concat (map utf8_units (montar_prompt texto))))
           = Proc_Output saida"
  shows "gerar_topicos_ollama run texto modelo =
     (case utf8_decode saida of
        Inl e \<Rightarrow> msg_erro_ollama @ str_unicode_error e
      | Inr texto_saida \<Rightarrow> if py_strip texto_saida = [] then msg_sem_resposta else py_strip texto_saida)"
proof -
  from assms(1) have "\<forall>ch\<in>set (montar_prompt texto). ch \<le> 0x10FFFF"
    using prompt_cabecalho_ok by (auto simp: montar_prompt_def py_str_ok_def dest: in_set_takeD)
  then have "concat (map utf8_encode_char (montar_prompt texto)) =
      map of_nat (concat (map utf8_units (montar_prompt texto)))"
    by (rule map_of_nat_units)
  with assms show ?thesis
    by (simp add: gerar_topicos_ollama_encoded split: sum.split)
qed

theorem gerar_topicos_ollama_output_witness:
  "gerar_topicos_ollama
     (\<lambda>_ b. if b = map of_nat (concat (map utf8_units (montar_prompt [65]))) then Proc_Output [32, 67, 195, 169, 10]
            else Proc_Not_Found) [65] modelo_padrao = [67, 233]"
  using gerar_topicos_ollama_output [of "[65]"
      "\<lambda>_ b. if b = map of_nat (concat (map utf8_units (montar_prompt [65]))) then Proc_Output [32, 67, 195, 169, 10]
             else Proc_Not_Found" modelo_padrao "[32, 67, 195, 169, 10]"]
  by (simp add: is_surrogate_def py_str_ok_def utf8_decode_def utf8_seq_def is_continuation_def py_strip_def
      py_lstrip_def py_rstrip_def py_isspace_iff)

end
