(* ===== verification/Renderer.thy ===== *)
theory Renderer
  imports PyStr
begin

text \<open>
  The diagram renderer \<open>criar_mapa_mental\<close> of \<open>src/main.py\<close> (lines 107--127). A
  Graphviz \<open>Digraph\<close> is its comment and its body, the list of node and edge
  statements in the order \<open>dot.node\<close> and \<open>dot.edge\<close> append them. The two nested
  \<open>for\<close> loops over \<open>enumerate\<close> are \<open>add_topicos\<close> and \<open>add_subtopicos\<close>, with the
  keys \<open>A\<close>, \<open>T{i}\<close> and \<open>T{i}_{j}\<close> built by \<open>str()\<close> of the indices. Whether
  \<open>shutil.which("dot")\<close> finds the tool and what \<open>dot.render\<close> does are parameters:
  the render either writes \<open>mapa_mental.pdf\<close> or raises with a message, which the code
  prints. The lemmas show that the keys are distinct even when labels repeat, that the
  graph is a tree rooted at \<open>A\<close> in which each node is attached once, and which labels
  it carries.
\<close>

datatype dg_stmt = Dg_Node pystr pystr | Dg_Edge pystr pystr

record digraph =
  dg_comment :: pystr
  dg_body :: "dg_stmt list"

definition raiz_id :: pystr where
  "raiz_id = ascii ''A''"

definition topico_id :: "nat \<Rightarrow> pystr" where
  "topico_id i = ascii ''T'' @ py_str_nat i"

definition sub_id :: "pystr \<Rightarrow> nat \<Rightarrow> pystr" where
  "sub_id tid j = tid @ ascii ''_'' @ py_str_nat j"

definition dg_add :: "digraph \<Rightarrow> dg_stmt \<Rightarrow> digraph" where
  "dg_add g s = g\<lparr>dg_body := dg_body g @ [s]\<rparr>"

fun add_subtopicos :: "pystr \<Rightarrow> nat \<Rightarrow> pystr list \<Rightarrow> digraph \<Rightarrow> digraph" where
  "add_subtopicos tid j [] g = g"
| "add_subtopicos tid j (subt # ss) g =
     add_subtopicos tid (Suc j) ss (dg_add (dg_add g (Dg_Node (sub_id tid j) subt)) (Dg_Edge tid (sub_id tid j)))"

fun add_topicos :: "nat \<Rightarrow> outline \<Rightarrow> digraph \<Rightarrow> digraph" where
  "add_topicos i [] g = g"
| "add_topicos i ((topico, subtopicos) # rest) g =
     add_topicos (Suc i) rest
       (add_subtopicos (topico_id i) 0 subtopicos
         (dg_add (dg_add g (Dg_Node (topico_id i) topico)) (Dg_Edge raiz_id (topico_id i))))"

definition montar_digraph :: "pystr \<Rightarrow> outline \<Rightarrow> digraph" where
  "montar_digraph titulo topicos_dict =
     add_topicos 0 topicos_dict (dg_add \<lparr>dg_comment = titulo, dg_body = []\<rparr> (Dg_Node raiz_id titulo))"

text \<open>The effects of the program: console lines and the rendered file.\<close>

datatype effect = Print pystr | Render_File pystr digraph

definition msg_graphviz_ausente :: pystr where
  "msg_graphviz_ausente = [10060] @ ascii '' Graphviz n'' @ [227] @
     ascii ''o encontrado. Instale Graphviz e adicione '' @ [39] @ ascii ''bin'' @ [39] @
     ascii '' ao PATH do Windows.''"

definition msg_mapa_salvo :: pystr where
  "msg_mapa_salvo = [9989] @ ascii '' Mapa mental salvo como '' @ [39] @ ascii ''mapa_mental.pdf'' @ [39]"

definition msg_erro_mapa :: pystr where
  "msg_erro_mapa = [10060] @ ascii '' Erro ao gerar o mapa mental: ''"

definition criar_mapa_mental ::
  "bool \<Rightarrow> (digraph \<Rightarrow> pystr option) \<Rightarrow> pystr \<Rightarrow> outline \<Rightarrow> effect list" where
  "criar_mapa_mental dot_encontrado render titulo topicos_dict =
     (if \<not> dot_encontrado then [Print msg_graphviz_ausente]
      else
        (let dot = montar_digraph titulo topicos_dict
         in (case render dot of
               None \<Rightarrow> [Render_File (ascii ''mapa_mental.pdf'') dot, Print msg_mapa_salvo]
             | Some e \<Rightarrow> [Print (msg_erro_mapa @ e)])))"

text \<open>The statements the inner loop, and the outer loop, append to the body.\<close>

fun sub_stmts :: "pystr \<Rightarrow> nat \<Rightarrow> pystr list \<Rightarrow> dg_stmt list" where
  "sub_stmts tid j [] = []"
| "sub_stmts tid j (subt # ss) =
     Dg_Node (sub_id tid j) subt # Dg_Edge tid (sub_id tid j) # sub_stmts tid (Suc j) ss"

fun topic_stmts :: "nat \<Rightarrow> outline \<Rightarrow> dg_stmt list" where
  "topic_stmts i [] = []"
| "topic_stmts i ((topico, ss) # rest) =
     Dg_Node (topico_id i) topico # Dg_Edge raiz_id (topico_id i) #
       sub_stmts (topico_id i) 0 ss @ topic_stmts (Suc i) rest"

text \<open>The node keys and labels of a body, in order.\<close>

definition dg_keys :: "dg_stmt list \<Rightarrow> pystr list" where
  "dg_keys body = [k. Dg_Node k l \<leftarrow> body]"

definition dg_labels :: "dg_stmt list \<Rightarrow> pystr list" where
  "dg_labels body = [l. Dg_Node k l \<leftarrow> body]"

text \<open>
  A body is a tree over the keys \<open>seen\<close> already declared when each further node is
  declared with a fresh key and immediately attached by one edge to a declared node;
  \<open>tree_seen\<close> returns the declared keys, or \<open>None\<close> for any other shape.
\<close>

fun tree_seen :: "pystr list \<Rightarrow> dg_stmt list \<Rightarrow> pystr list option" where
  "tree_seen seen [] = Some seen"
| "tree_seen seen (Dg_Node k l # Dg_Edge p k' # rest) =
     (if k \<notin> set seen \<and> p \<in> set seen \<and> k' = k then tree_seen (k # seen) rest else None)"
| "tree_seen seen _ = None"

definition dg_tree :: "digraph \<Rightarrow> bool" where
  "dg_tree g =
     (case dg_body g of
        Dg_Node r l # rest \<Rightarrow> tree_seen [r] rest \<noteq> None
      | _ \<Rightarrow> False)"

subsection \<open>The body in closed form\<close>

lemma add_subtopicos_body:
  "add_subtopicos tid j ss g = g\<lparr>dg_body := dg_body g @ sub_stmts tid j ss\<rparr>"
  by (induction ss arbitrary: j g) (simp_all add: dg_add_def)

lemma add_topicos_body:
  "add_topicos i d g = g\<lparr>dg_body := dg_body g @ topic_stmts i d\<rparr>"
  by (induction i d arbitrary: g rule: topic_stmts.induct) (simp_all add: dg_add_def add_subtopicos_body)

lemma montar_digraph_body:
  "dg_body (montar_digraph titulo d) = Dg_Node raiz_id titulo # topic_stmts 0 d"
  and montar_digraph_comment: "dg_comment (montar_digraph titulo d) = titulo"
  by (simp_all add: montar_digraph_def add_topicos_body dg_add_def)

subsection \<open>The keys are disjoint\<close>

lemma underscore_not_digit: "95 \<notin> set (py_str_nat n)"
  using py_str_nat_digits by fastforce

lemma underscore_not_in_topico_id: "95 \<notin> set (topico_id i)"
  by (simp add: topico_id_def underscore_not_digit)

lemma topico_id_inject [simp]: "topico_id i = topico_id i' \<longleftrightarrow> i = i'"
  by (simp add: topico_id_def)

lemma sub_id_topico_inject [simp]:
  "sub_id (topico_id i) j = sub_id (topico_id i') j' \<longleftrightarrow> i = i' \<and> j = j'"
proof -
  have "sub_id (topico_id i) j = topico_id i @ 95 # py_str_nat j"
    and "sub_id (topico_id i') j' = topico_id i' @ 95 # py_str_nat j'"
    by (simp_all add: sub_id_def)
  then show ?thesis
    using append_Cons_eq_iff [OF underscore_not_in_topico_id underscore_not_digit] by simp
qed

lemma topico_id_not_sub_id [simp]: "topico_id i \<noteq> sub_id tid j" "sub_id tid j \<noteq> topico_id i"
proof -
  have "95 \<in> set (sub_id tid j)" by (simp add: sub_id_def)
  with underscore_not_in_topico_id [of i] show "topico_id i \<noteq> sub_id tid j" "sub_id tid j \<noteq> topico_id i"
    by metis+
qed

lemma raiz_not_topico_id [simp]: "raiz_id \<noteq> topico_id i" "topico_id i \<noteq> raiz_id"
  and raiz_not_sub_id [simp]: "raiz_id \<noteq> sub_id (topico_id i) j" "sub_id (topico_id i) j \<noteq> raiz_id"
  by (simp_all add: raiz_id_def topico_id_def sub_id_def)

lemma sub_id_inject [simp]: "sub_id tid j = sub_id tid j' \<longleftrightarrow> j = j'"
  by (simp add: sub_id_def)

subsection \<open>The body is a tree\<close>

lemma tree_seen_append:
  "tree_seen seen xs = Some s \<Longrightarrow> tree_seen seen (xs @ ys) = tree_seen s ys"
  by (induction seen xs rule: tree_seen.induct) (auto split: if_splits)

lemma tree_seen_sub_stmts:
  "tid \<in> set seen \<Longrightarrow> \<forall>j'\<ge>j. sub_id tid j' \<notin> set seen \<Longrightarrow>
     \<exists>s. tree_seen seen (sub_stmts tid j ss) = Some s \<and>
         set s = set seen \<union> sub_id tid ` {j..<j + length ss}"
proof (induction ss arbitrary: j seen)
  case Nil
  then show ?case by simp
next
  case (Cons subt ss)
  let ?k = "sub_id tid j"
  have "tid \<in> set (?k # seen)" using Cons.prems by simp
  moreover have "\<forall>j'\<ge>Suc j. sub_id tid j' \<notin> set (?k # seen)"
    using Cons.prems by (auto simp: sub_id_def)
  ultimately obtain s where s: "tree_seen (?k # seen) (sub_stmts tid (Suc j) ss) = Some s"
    and set_s: "set s = set (?k # seen) \<union> sub_id tid ` {Suc j..<Suc j + length ss}"
    using Cons.IH by blast
  have "{j..<j + length (subt # ss)} = insert j {Suc j..<Suc j + length ss}"
    by auto
  then have "sub_id tid ` {j..<j + length (subt # ss)} = insert ?k (sub_id tid ` {Suc j..<Suc j + length ss})"
    by simp
  with s set_s Cons.prems show ?case by auto
qed

text \<open>The keys declared before topic \<open>i\<close>: the root, earlier topics, their subtopics.\<close>

lemma tree_seen_topic_stmts:
  "raiz_id \<in> set seen \<Longrightarrow>
   \<forall>k\<in>set seen. k = raiz_id \<or> (\<exists>i'<i. k = topico_id i') \<or> (\<exists>i'<i. \<exists>j. k = sub_id (topico_id i') j) \<Longrightarrow>
   tree_seen seen (topic_stmts i d) \<noteq> None"
proof (induction i d arbitrary: seen rule: topic_stmts.induct)
  case (1 i)
  then show ?case by simp
next
  case (2 i topico ss rest)
  let ?t = "topico_id i"
  have fresh: "?t \<notin> set seen"
    using "2.prems"(2) by auto
  have "\<forall>j'\<ge>0. sub_id ?t j' \<notin> set (?t # seen)"
    using "2.prems"(2) by fastforce
  then obtain s where s: "tree_seen (?t # seen) (sub_stmts ?t 0 ss) = Some s"
    and set_s: "set s = set (?t # seen) \<union> sub_id ?t ` {0..<length ss}"
    using tree_seen_sub_stmts [of ?t "?t # seen" 0 ss] by auto
  have "raiz_id \<in> set s" using set_s "2.prems"(1) by auto
  moreover have "\<forall>k\<in>set s. k = raiz_id \<or> (\<exists>i'<Suc i. k = topico_id i') \<or>
      (\<exists>i'<Suc i. \<exists>j. k = sub_id (topico_id i') j)"
    using set_s "2.prems"(2) less_Suc_eq by auto
  ultimately have "tree_seen s (topic_stmts (Suc i) rest) \<noteq> None"
    by (rule "2.IH")
  with fresh "2.prems"(1) s show ?case
    by (simp add: tree_seen_append)
qed

lemma tree_seen_keys:
  "tree_seen seen body = Some s \<Longrightarrow> distinct seen \<Longrightarrow>
     distinct (dg_keys body) \<and> set (dg_keys body) \<inter> set seen = {}"
  by (induction seen body rule: tree_seen.induct) (auto simp: dg_keys_def split: if_splits)

lemma dg_labels_simps [simp]:
  "dg_labels [] = []"
  "dg_labels (Dg_Node k l # xs) = l # dg_labels xs"
  "dg_labels (Dg_Edge a b # xs) = dg_labels xs"
  by (simp_all add: dg_labels_def)

lemma dg_labels_sub_stmts [simp]: "dg_labels (sub_stmts tid j ss) = ss"
  by (induction ss arbitrary: j) simp_all

lemma dg_labels_append [simp]: "dg_labels (xs @ ys) = dg_labels xs @ dg_labels ys"
  by (simp add: dg_labels_def)

lemma dg_labels_topic_stmts: "dg_labels (topic_stmts i d) = concat (map (\<lambda>(t, ss). t # ss) d)"
  by (induction i d rule: topic_stmts.induct) simp_all

subsection \<open>Properties\<close>

text \<open>
  C12. The keys of the nodes of the mind map are pairwise distinct, whatever the labels:
  \<open>A\<close>, \<open>T{i}\<close> and \<open>T{i}_{j}\<close> never collide, so no two topics or subtopics are merged
  by Graphviz even when their names are equal.
\<close>

theorem montar_digraph_keys_distinct: "distinct (dg_keys (dg_body (montar_digraph titulo d)))"
proof -
  have "\<forall>k\<in>set [raiz_id]. k = raiz_id \<or> (\<exists>i'<0. k = topico_id i') \<or>
      (\<exists>i'<0. \<exists>j. k = sub_id (topico_id i') j)" by simp
  then obtain s where "tree_seen [raiz_id] (topic_stmts 0 d) = Some s"
    using tree_seen_topic_stmts [of "[raiz_id]" 0 d] by auto
  then have "distinct (dg_keys (topic_stmts 0 d)) \<and> set (dg_keys (topic_stmts 0 d)) \<inter> {raiz_id} = {}"
    using tree_seen_keys by fastforce
  then show ?thesis by (simp add: montar_digraph_body dg_keys_def)
qed

text \<open>
  C13. The mind map is a tree rooted at the title node \<open>A\<close>: after the root, every node
  is declared with a fresh key and immediately attached by exactly one edge to a node
  declared before it.
\<close>

theorem montar_digraph_tree: "dg_tree (montar_digraph titulo d)"
  using tree_seen_topic_stmts [of "[raiz_id]" 0 d]
  by (simp add: dg_tree_def montar_digraph_body)

text \<open>
  C14. The node labels of the mind map are the title followed, topic by topic in dict
  order, by the topic name and its subtopic names, duplicates kept.
\<close>

theorem montar_digraph_labels:
  "dg_labels (dg_body (montar_digraph titulo d)) = titulo # concat (map (\<lambda>(t, ss). t # ss) d)"
  by (simp add: montar_digraph_body dg_labels_topic_stmts)

end
