(* ===== verification/Pipeline.thy ===== *)
theory Pipeline
  imports Parser Extractor Requester Renderer
begin

text \<open>
  The source provider \<open>escolher_pdf\<close> (lines 21--28) and the pipeline \<open>main\<close> of
  \<open>src/main.py\<close> (lines 132--154). The environment of a run is the record
  \<open>ambiente\<close>: the file dialog \<open>filedialog.askopenfilename\<close> as a function from the
  title and the file types it is given to the path the user picks (the empty string when
  the user cancels), the PDF library, the \<open>ollama\<close> process, whether Graphviz's
  \<open>dot\<close> is on the path, and what rendering does. \<open>main\<close> returns the effects it
  performs, in order (console lines and the written mind map), and the exception that
  escapes it, if any: \<open>main\<close> catches nothing, so an exception of the extractor or of
  the parser ends the program after the effects before it.
\<close>

record ambiente =
  dialogo :: "pystr \<Rightarrow> (pystr \<times> pystr) list \<Rightarrow> pystr"
  abrir_pdf :: "pystr \<Rightarrow> py_error + page_result list"
  ollama :: "pystr list \<Rightarrow> byte list \<Rightarrow> proc_outcome"
  dot_encontrado :: bool
  render :: "digraph \<Rightarrow> pystr option"

text \<open>
  \<open>escolher_pdf\<close>: a hidden Tk root window (no effect the run can observe) and the dialog
  with its title and its filter on PDF files.
\<close>

definition escolher_pdf :: "(pystr \<Rightarrow> (pystr \<times> pystr) list \<Rightarrow> pystr) \<Rightarrow> pystr" where
  "escolher_pdf askopenfilename =
     askopenfilename (ascii ''Selecione o PDF'') [(ascii ''PDF files'', ascii ''*.pdf'')]"

abbreviation escolha :: "ambiente \<Rightarrow> pystr" where
  "escolha env \<equiv> escolher_pdf (dialogo env)"

definition msg_nenhum_pdf :: pystr where
  "msg_nenhum_pdf = [9888, 65039] @ ascii '' Nenhum PDF selecionado. Saindo...''"

definition msg_pdf_selecionado :: pystr where
  "msg_pdf_selecionado = [128196] @ ascii '' PDF selecionado: ''"

definition msg_extraindo :: pystr where
  "msg_extraindo = [128269] @ ascii '' Extraindo texto do PDF...''"

definition msg_gerando :: pystr where
  "msg_gerando = [129302] @ ascii '' Gerando t'' @ [243] @ ascii ''picos autom'' @ [225] @
     ascii ''ticos com CodeLlama via Ollama...''"

definition msg_topicos_gerados :: pystr where
  "msg_topicos_gerados = ascii ''\<newline>=== T'' @ [243] @ ascii ''picos gerados ===\<newline>''"

definition msg_sem_topicos :: pystr where
  "msg_sem_topicos = [9888, 65039] @ ascii '' N'' @ [227] @ ascii ''o foi poss'' @ [237] @
     ascii ''vel criar o mapa mental. Nenhum t'' @ [243] @ ascii ''pico detectado.''"

definition titulo_mapa :: pystr where
  "titulo_mapa = ascii ''Meu Estudo''"

definition main :: "ambiente \<Rightarrow> effect list \<times> py_error option" where
  "main env =
     (let caminho_pdf = escolher_pdf (dialogo env)
      in if caminho_pdf = [] then ([Print msg_nenhum_pdf], None)
         else
           (let saida1 = [Print (msg_pdf_selecionado @ caminho_pdf), Print msg_extraindo]
            in (case extrair_texto_pdf (abrir_pdf env) caminho_pdf of
                  Inl e \<Rightarrow> (saida1, Some e)
                | Inr conteudo \<Rightarrow>
                    (let resposta_ollama = gerar_topicos_ollama (ollama env) conteudo modelo_padrao;
                         saida2 = saida1 @ [Print msg_gerando, Print msg_topicos_gerados,
                                            Print resposta_ollama]
                     in (case parse_topicos resposta_ollama of
                           Inl e \<Rightarrow> (saida2, Some e)
                         | Inr topicos_dict \<Rightarrow>
                             if topicos_dict \<noteq> []
                             then (saida2 @ criar_mapa_mental (dot_encontrado env) (render env)
                                              titulo_mapa topicos_dict, None)
                             else (saida2 @ [Print msg_sem_topicos], None))))))"

text \<open>\<open>if __name__ == "__main__": main()\<close>: the run happens only when the module is the program.\<close>

definition executar_modulo :: "pystr \<Rightarrow> ambiente \<Rightarrow> effect list \<times> py_error option" where
  "executar_modulo nome env = (if nome = ascii ''__main__'' then main env else ([], None))"

text \<open>The reply \<open>main\<close> obtains from the requester, when the text could be extracted.\<close>

definition resposta_de :: "ambiente \<Rightarrow> pystr \<Rightarrow> pystr" where
  "resposta_de env conteudo = gerar_topicos_ollama (ollama env) conteudo modelo_padrao"

subsection \<open>Lemmas\<close>

lemma render_in_criar_mapa_mental:
  "Render_File f g \<in> set (criar_mapa_mental dot r t d) \<longleftrightarrow>
     dot \<and> r (montar_digraph t d) = None \<and> f = ascii ''mapa_mental.pdf'' \<and> g = montar_digraph t d"
  by (auto simp: criar_mapa_mental_def Let_def split: option.splits)

lemma main_cases:
  obtains (cancelado) "escolha env = []" "main env = ([Print msg_nenhum_pdf], None)"
  | (falha_pdf) e where "escolha env \<noteq> []" "extrair_texto_pdf (abrir_pdf env) (escolha env) = Inl e"
      "main env = ([Print (msg_pdf_selecionado @ escolha env), Print msg_extraindo], Some e)"
  | (falha_parse) c e where "escolha env \<noteq> []" "extrair_texto_pdf (abrir_pdf env) (escolha env) = Inr c"
      "parse_topicos (resposta_de env c) = Inl e"
      "main env = ([Print (msg_pdf_selecionado @ escolha env), Print msg_extraindo, Print msg_gerando,
                    Print msg_topicos_gerados, Print (resposta_de env c)], Some e)"
  | (vazio) c where "escolha env \<noteq> []" "extrair_texto_pdf (abrir_pdf env) (escolha env) = Inr c"
      "parse_topicos (resposta_de env c) = Inr []"
      "main env = ([Print (msg_pdf_selecionado @ escolha env), Print msg_extraindo, Print msg_gerando,
                    Print msg_topicos_gerados, Print (resposta_de env c), Print msg_sem_topicos], None)"
  | (mapa) c d where "escolha env \<noteq> []" "extrair_texto_pdf (abrir_pdf env) (escolha env) = Inr c"
      "parse_topicos (resposta_de env c) = Inr d" "d \<noteq> []"
      "main env = ([Print (msg_pdf_selecionado @ escolha env), Print msg_extraindo, Print msg_gerando,
                    Print msg_topicos_gerados, Print (resposta_de env c)]
                   @ criar_mapa_mental (dot_encontrado env) (render env) titulo_mapa d, None)"
  by (cases "escolha env = []"; cases "extrair_texto_pdf (abrir_pdf env) (escolha env)";
      cases "parse_topicos (resposta_de env (projr (extrair_texto_pdf (abrir_pdf env) (escolha env))))")
    (auto simp: main_def resposta_de_def Let_def)

subsection \<open>Properties\<close>

text \<open>
  C17. When the user cancels the dialog, \<open>main\<close> prints one notice and stops normally:
  no extraction, no request to the model, no file.
\<close>

theorem main_cancelled: "escolha env = [] \<Longrightarrow> main env = ([Print msg_nenhum_pdf], None)"
  by (simp add: main_def)

theorem main_cancelled_witness:
  "main \<lparr>dialogo = \<lambda>_ _. [], abrir_pdf = \<lambda>_. Inr [], ollama = \<lambda>_ _. Proc_Not_Found,
         dot_encontrado = True, render = \<lambda>_. None\<rparr> = ([Print msg_nenhum_pdf], None)"
  by (rule main_cancelled) (simp add: escolher_pdf_def)

text \<open>
  C18. \<open>main\<close> writes a file exactly when a PDF was chosen, its text was extracted, the
  reply parsed to a non-empty outline, \<open>dot\<close> is found and rendering succeeds; the file
  is then \<open>mapa_mental.pdf\<close> and holds the mind map of that outline titled
  \<open>Meu Estudo\<close>.
\<close>

theorem main_writes_map_iff:
  "Render_File f g \<in> set (fst (main env)) \<longleftrightarrow>
     (\<exists>c d. escolha env \<noteq> [] \<and> extrair_texto_pdf (abrir_pdf env) (escolha env) = Inr c \<and>
        parse_topicos (resposta_de env c) = Inr d \<and> d \<noteq> [] \<and> dot_encontrado env \<and>
        render env (montar_digraph titulo_mapa d) = None \<and>
        f = ascii ''mapa_mental.pdf'' \<and> g = montar_digraph titulo_mapa d)"
  by (cases env rule: main_cases) (auto simp: render_in_criar_mapa_mental)

theorem main_writes_map_iff_witness:
  "Render_File (ascii ''mapa_mental.pdf'') (montar_digraph titulo_mapa [(ascii ''A'', [])]) \<in>
     set (fst (main \<lparr>dialogo = \<lambda>_ _. ascii ''a.pdf'', abrir_pdf = \<lambda>_. Inr [Inr (Some (ascii ''texto''))],
       ollama = \<lambda>_ _. Proc_Output [42, 32, 84, 195, 179, 112, 105, 99, 111, 32, 49, 58, 32, 65],
       dot_encontrado = True, render = \<lambda>_. None\<rparr>))"
  by (rule main_writes_map_iff [THEN iffD2],
      rule exI [of _ "ascii ''texto\<newline>''"], rule exI [of _ "[(ascii ''A'', [])]"])
    (simp add: py_simps extrair_texto_pdf_def resposta_de_def escolher_pdf_def is_surrogate_def
      utf8_decode_def utf8_seq_def is_continuation_def)

text \<open>
  C19. An exception escapes \<open>main\<close> exactly when a PDF was chosen and either the PDF
  library raised it, or the text was extracted and the model's reply has a topic line
  without a colon, the exception then being \<open>IndexError\<close>.
\<close>

theorem main_uncaught_iff:
  "snd (main env) = Some e \<longleftrightarrow>
     escolha env \<noteq> [] \<and>
     (extrair_texto_pdf (abrir_pdf env) (escolha env) = Inl e \<or>
      (\<exists>c. extrair_texto_pdf (abrir_pdf env) (escolha env) = Inr c \<and> e = IndexError \<and>
           (\<exists>l\<in>set (py_splitlines (resposta_de env c)). missing_colon_topic l)))"
  by (cases env rule: main_cases)
    (auto simp: parse_topicos_Inl parse_linhas_Inl_iff dest: parse_topicos_Inr_no_missing)

theorem main_uncaught_iff_witness:
  "snd (main \<lparr>dialogo = \<lambda>_ _. ascii ''a.pdf'', abrir_pdf = \<lambda>_. Inr [Inr (Some (ascii ''texto''))],
       ollama = \<lambda>_ _. Proc_Output [42, 42, 84, 195, 179, 112, 105, 99, 111, 32, 49, 32, 82, 101, 100, 101, 115, 42, 42],
       dot_encontrado = True, render = \<lambda>_. None\<rparr>) = Some IndexError"
  by (rule main_uncaught_iff [THEN iffD2])
    (simp add: py_simps extrair_texto_pdf_def resposta_de_def missing_colon_topic_def escolher_pdf_def
      is_surrogate_def utf8_decode_def utf8_seq_def is_continuation_def)

end
