(* ===== verification/Outline_Spec.thy ===== *)
theory Outline_Spec
  imports Parser
begin

text \<open>
  The contract of the outline parser, stated apart from the loop. Following the design
  notes of the spec (section 9), a line is first classified on its own (\<open>classify\<close>:
  blank, topic line with its name or with no colon, subtopic line with its name, other),
  and the outline is then a function of the classified lines alone: \<open>outline_spec\<close>
  lists each topic name once, in the order of its first topic line (the insertion order
  of the dict), with the subtopic lines that follow its last topic line up to the next
  topic line (the overwrite of the source), and none for the empty name (whose subtopic
  lines the source drops, as \<open>""\<close> is false). \<open>kind_step\<close> is the spec's reducer on
  classified lines. The refinement theorems show that one iteration of the source is
  \<open>kind_step\<close> of the classified line, and that \<open>parse_topicos\<close> computes
  \<open>outline_spec\<close>, or raises \<open>IndexError\<close> exactly when a topic line has no colon.
\<close>

datatype linha_kind =
  Blank_Line
| Topic_Line "pystr option"
| Sub_Line pystr
| Other_Line

definition after_colon :: "pystr \<Rightarrow> pystr" where
  "after_colon linha = tl (dropWhile (\<lambda>c. c \<noteq> colon) linha)"

definition classify :: "pystr \<Rightarrow> linha_kind" where
  "classify linha0 =
     (let linha = py_strip linha0 in
      if linha = [] then Blank_Line
      else if is_topico_line linha then
        Topic_Line (if colon \<in> set linha then Some (py_strip (after_colon linha)) else None)
      else if is_sub_line linha then
        Sub_Line (py_strip (if colon \<in> set linha then after_colon linha else drop 1 linha))
      else Other_Line)"

fun kind_step :: "parse_state \<Rightarrow> linha_kind \<Rightarrow> py_error + parse_state" where
  "kind_step st Blank_Line = Inr st"
| "kind_step st (Topic_Line None) = Inl IndexError"
| "kind_step st (Topic_Line (Some t)) =
     Inr (st\<lparr>current_topico := Some t, topicos := AList.update t [] (topicos st)\<rparr>)"
| "kind_step st (Sub_Line s) =
     (if py_truthy_opt (current_topico st) then
        (let cur = the (current_topico st)
         in Inr (st\<lparr>topicos := AList.update cur (the (map_of (topicos st) cur) @ [s]) (topicos st)\<rparr>))
      else Inr st)"
| "kind_step st Other_Line = Inr st"

fun topic_names :: "linha_kind list \<Rightarrow> pystr list" where
  "topic_names [] = []"
| "topic_names (Topic_Line (Some t) # ks) = t # topic_names ks"
| "topic_names (_ # ks) = topic_names ks"

fun subs_until_topic :: "linha_kind list \<Rightarrow> pystr list" where
  "subs_until_topic [] = []"
| "subs_until_topic (Topic_Line _ # ks) = []"
| "subs_until_topic (Sub_Line s # ks) = s # subs_until_topic ks"
| "subs_until_topic (_ # ks) = subs_until_topic ks"

text \<open>The subtopics of topic \<open>t\<close>: those after its last topic line, if \<open>t\<close> is not empty.\<close>

fun block_of :: "pystr \<Rightarrow> linha_kind list \<Rightarrow> pystr list" where
  "block_of t [] = []"
| "block_of t (Topic_Line (Some n) # ks) =
     (if n = t \<and> t \<notin> set (topic_names ks) \<and> t \<noteq> [] then subs_until_topic ks
      else block_of t ks)"
| "block_of t (_ # ks) = block_of t ks"

definition first_occurrences :: "'a list \<Rightarrow> 'a list" where
  "first_occurrences xs = rev (remdups (rev xs))"

definition outline_spec :: "linha_kind list \<Rightarrow> outline" where
  "outline_spec ks = map (\<lambda>t. (t, block_of t ks)) (first_occurrences (topic_names ks))"

definition last_topic :: "linha_kind list \<Rightarrow> pystr option" where
  "last_topic ks = (if topic_names ks = [] then None else Some (last (topic_names ks)))"

subsection \<open>Lemmas on the specification\<close>

lemma first_occurrences_snoc [simp]:
  "first_occurrences (xs @ [x]) =
     (if x \<in> set xs then first_occurrences xs else first_occurrences xs @ [x])"
  by (simp add: first_occurrences_def)

lemma distinct_first_occurrences [simp]: "distinct (first_occurrences xs)"
  and set_first_occurrences [simp]: "set (first_occurrences xs) = set xs"
  by (simp_all add: first_occurrences_def)

lemma topic_names_append [simp]: "topic_names (xs @ ys) = topic_names xs @ topic_names ys"
  by (induction xs rule: topic_names.induct) auto

lemma topic_names_Topic_Line [simp]:
  "topic_names (Topic_Line x # ks) = (case x of None \<Rightarrow> topic_names ks | Some t \<Rightarrow> t # topic_names ks)"
  by (cases x) auto

lemma subs_until_topic_snoc_topic: "subs_until_topic (xs @ [Topic_Line x]) = subs_until_topic xs"
  by (induction xs rule: subs_until_topic.induct) auto

lemma subs_until_topic_snoc_sub:
  "Topic_Line None \<notin> set xs \<Longrightarrow>
     subs_until_topic (xs @ [Sub_Line s]) =
       (if topic_names xs = [] then subs_until_topic xs @ [s] else subs_until_topic xs)"
  by (induction xs rule: subs_until_topic.induct) (auto split: option.splits)

lemma subs_until_topic_snoc_other:
  "k = Blank_Line \<or> k = Other_Line \<Longrightarrow> subs_until_topic (xs @ [k]) = subs_until_topic xs"
  by (induction xs rule: subs_until_topic.induct) auto

lemma block_of_Topic_Line:
  "block_of t (Topic_Line x # ks) =
     (case x of None \<Rightarrow> block_of t ks
      | Some n \<Rightarrow> if n = t \<and> t \<notin> set (topic_names ks) \<and> t \<noteq> [] then subs_until_topic ks
                else block_of t ks)"
  by (cases x) auto

lemma block_of_snoc_topic:
  "block_of t (ks @ [Topic_Line (Some n)]) = (if n = t then [] else block_of t ks)"
proof (induction ks)
  case (Cons k ks)
  then show ?case
    by (cases k) (auto simp: block_of_Topic_Line subs_until_topic_snoc_topic split: option.splits)
qed simp

lemma block_of_snoc_sub:
  "Topic_Line None \<notin> set ks \<Longrightarrow>
     block_of t (ks @ [Sub_Line s]) =
       (if last_topic ks = Some t \<and> t \<noteq> [] then block_of t ks @ [s] else block_of t ks)"
  by (induction t ks rule: block_of.induct)
    (auto simp: last_topic_def subs_until_topic_snoc_sub dest: last_in_set split: option.splits)

lemma block_of_snoc_other:
  "k = Blank_Line \<or> k = Other_Line \<or> k = Topic_Line None \<Longrightarrow>
     block_of t (ks @ [k]) = block_of t ks"
  by (induction t ks rule: block_of.induct)
    (auto simp: subs_until_topic_snoc_other subs_until_topic_snoc_topic)

lemma last_topic_snoc:
  "last_topic (ks @ [k]) = (case k of Topic_Line (Some n) \<Rightarrow> Some n | _ \<Rightarrow> last_topic ks)"
  by (cases k) (auto simp: last_topic_def split: option.splits)

text \<open>Assigning a key of a dict whose keys are distinct and whose values are \<open>f\<close>.\<close>

lemma update_map_pairs:
  "distinct ks \<Longrightarrow>
     AList.update k v (map (\<lambda>t. (t, f t)) ks) =
       map (\<lambda>t. (t, if t = k then v else f t)) (if k \<in> set ks then ks else ks @ [k])"
  by (induction ks) auto

lemma map_of_outline_spec:
  "map_of (outline_spec ks) t = (if t \<in> set (topic_names ks) then Some (block_of t ks) else None)"
  by (simp add: outline_spec_def map_of_map_restrict)

lemma outline_spec_snoc_topic:
  "outline_spec (ks @ [Topic_Line (Some n)]) = AList.update n [] (outline_spec ks)"
  by (auto simp: outline_spec_def update_map_pairs block_of_snoc_topic)

lemma outline_spec_snoc_sub:
  assumes "Topic_Line None \<notin> set ks"
  shows "outline_spec (ks @ [Sub_Line s]) =
    (if py_truthy_opt (last_topic ks)
     then AList.update (the (last_topic ks)) (block_of (the (last_topic ks)) ks @ [s]) (outline_spec ks)
     else outline_spec ks)"
proof (cases "py_truthy_opt (last_topic ks)")
  case True
  then obtain c where c: "last_topic ks = Some c" "c \<noteq> []"
    by (auto simp: py_truthy_opt_def split: option.splits)
  then have "c \<in> set (topic_names ks)"
    by (auto simp: last_topic_def split: if_splits)
  with c True assms show ?thesis
    by (auto simp: outline_spec_def update_map_pairs block_of_snoc_sub)
next
  case False
  with assms show ?thesis
    by (auto simp: outline_spec_def block_of_snoc_sub py_truthy_opt_def)
qed

lemma outline_spec_snoc_other:
  "k = Blank_Line \<or> k = Other_Line \<Longrightarrow> outline_spec (ks @ [k]) = outline_spec ks"
  by (auto simp: outline_spec_def block_of_snoc_other)

lemma classify_missing_colon: "classify l = Topic_Line None \<longleftrightarrow> missing_colon_topic l"
  by (simp add: classify_def missing_colon_topic_def Let_def)

subsection \<open>Refinement\<close>

text \<open>Under the loop invariant, one iteration of the source is the reducer on the class of the line.\<close>

lemma parse_linha_kind_step:
  "parse_inv st \<Longrightarrow> parse_linha st l = kind_step st (classify l)"
  by (auto simp: parse_linha_def classify_def after_colon_def parse_inv_def py_truthy_opt_def
      py_dict_get_def Let_def map_of_eq_None_iff split: option.splits)

lemma parse_linhas_spec:
  "Topic_Line None \<notin> set (map classify ls) \<Longrightarrow>
     parse_linhas parse_init ls =
       Inr \<lparr>topicos = outline_spec (map classify ls), current_topico = last_topic (map classify ls)\<rparr>"
proof (induction ls rule: rev_induct)
  case Nil
  show ?case by (simp add: parse_init_def outline_spec_def last_topic_def first_occurrences_def)
next
  case (snoc l ls)
  let ?ks = "map classify ls"
  let ?st = "\<lparr>topicos = outline_spec ?ks, current_topico = last_topic ?ks\<rparr>"
  from snoc have run: "parse_linhas parse_init ls = Inr ?st" and none: "Topic_Line None \<notin> set ?ks"
    by auto
  then have "parse_inv ?st"
    by (blast intro: parse_linhas_inv parse_inv_init)
  then have "parse_linhas parse_init (ls @ [l]) = kind_step ?st (classify l)"
    by (simp add: parse_linhas_append run parse_linha_kind_step del: parse_linhas.simps(2))
  also have "\<dots> = Inr \<lparr>topicos = outline_spec (?ks @ [classify l]),
                       current_topico = last_topic (?ks @ [classify l])\<rparr>"
  proof (cases "classify l")
    case (Topic_Line x)
    with snoc.prems obtain n where "x = Some n" by (cases x) auto
    with Topic_Line show ?thesis
      by (simp add: outline_spec_snoc_topic last_topic_snoc)
  next
    case (Sub_Line s)
    with none show ?thesis
      by (simp add: outline_spec_snoc_sub last_topic_snoc map_of_outline_spec Let_def
          py_truthy_opt_def last_topic_def split: option.splits)
  qed (simp_all add: outline_spec_snoc_other last_topic_snoc)
  finally show ?case by simp
qed

lemma block_of_Nil_name: "block_of [] ks = []"
  by (induction "[] :: pystr" ks rule: block_of.induct) auto

lemma parse_topicos_Inr_spec:
  assumes run: "parse_topicos resposta = Inr d"
  shows "d = outline_spec (map classify (py_splitlines resposta))"
proof -
  obtain st where st: "parse_linhas parse_init (py_splitlines resposta) = Inr st" "d = topicos st"
    using run by (auto simp: parse_topicos_Inr)
  have "Topic_Line None \<notin> set (map classify (py_splitlines resposta))"
  proof
    assume "Topic_Line None \<in> set (map classify (py_splitlines resposta))"
    then obtain l where "l \<in> set (py_splitlines resposta)" and "missing_colon_topic l"
      by (auto simp: classify_missing_colon [symmetric])
    then have "parse_linhas parse_init (py_splitlines resposta) = Inl IndexError"
      by (auto simp: parse_linhas_Inl_iff)
    with st show False by simp
  qed
  then have "parse_linhas parse_init (py_splitlines resposta) =
    Inr \<lparr>topicos = outline_spec (map classify (py_splitlines resposta)),
         current_topico = last_topic (map classify (py_splitlines resposta))\<rparr>"
    by (rule parse_linhas_spec)
  with st show ?thesis by auto
qed

subsection \<open>Properties\<close>

text \<open>
  C1. \<open>parse_topicos\<close> implements the outline contract: on every reply it raises
  \<open>IndexError\<close> if some line classifies as a topic line without a colon, and otherwise
  returns \<open>outline_spec\<close> of the classified lines (each topic once, in first-appearance
  order, with the subtopics after its last topic line).
\<close>

theorem parse_topicos_refines_spec:
  "parse_topicos resposta =
     (let ks = map classify (py_splitlines resposta)
      in if Topic_Line None \<in> set ks then Inl IndexError else Inr (outline_spec ks))"
proof (cases "Topic_Line None \<in> set (map classify (py_splitlines resposta))")
  case True
  then obtain l where "l \<in> set (py_splitlines resposta)" and "missing_colon_topic l"
    by (auto simp: classify_missing_colon [symmetric])
  then have "parse_linhas parse_init (py_splitlines resposta) = Inl IndexError"
    by (auto simp: parse_linhas_Inl_iff)
  with True show ?thesis by (simp add: parse_topicos_def)
next
  case False
  then show ?thesis by (simp add: parse_topicos_def parse_linhas_spec)
qed

text \<open>
  C4. The topics of the returned dict are the names of the topic lines, each once, in the
  order of their first topic line, although a repeated name replaces the earlier entry.
\<close>

theorem parse_topicos_key_order:
  "parse_topicos resposta = Inr d \<Longrightarrow>
     dict_keys d = first_occurrences (topic_names (map classify (py_splitlines resposta)))"
  by (drule parse_topicos_Inr_spec) (simp add: outline_spec_def comp_def)

theorem parse_topicos_key_order_witness:
  "parse_topicos (ascii ''* T'' @ [243] @ ascii ''pico 1: A\<newline>* T'' @ [243] @ ascii ''pico 2: B\<newline>* T'' @ [243] @ ascii ''pico 3: A'')
     = Inr [(ascii ''A'', []), (ascii ''B'', [])]
   \<and> dict_keys [(ascii ''A'', [] :: pystr list), (ascii ''B'', [])] = [ascii ''A'', ascii ''B'']"
proof -
  have run: "parse_topicos (ascii ''* T'' @ [243] @ ascii ''pico 1: A\<newline>* T'' @ [243] @ ascii ''pico 2: B\<newline>* T'' @ [243] @ ascii ''pico 3: A'')
     = Inr [(ascii ''A'', []), (ascii ''B'', [])]"
    by (simp add: py_simps)
  show ?thesis using parse_topicos_key_order [OF run] run by simp
qed

text \<open>
  C7. A topic line with nothing after its colon (\<open>* T\<oacute>pico 1:\<close>) enters the empty
  name into the dict, and the empty name never has a subtopic: \<open>current_topico\<close> is then
  \<open>""\<close>, which is false, so the subtopic lines after it are dropped.
\<close>

theorem parse_topicos_empty_name_no_subtopics:
  "parse_topicos resposta = Inr d \<Longrightarrow> ([], subs) \<in> set d \<Longrightarrow> subs = []"
  by (drule parse_topicos_Inr_spec) (auto simp: outline_spec_def block_of_Nil_name)

theorem parse_topicos_empty_name_no_subtopics_witness:
  "parse_topicos (ascii ''* T'' @ [243] @ ascii ''pico 1:\<newline>+ x'') = Inr [([], [])]"
proof -
  have run: "parse_topicos (ascii ''* T'' @ [243] @ ascii ''pico 1:\<newline>+ x'') = Inr [([], [])]"
    by (simp add: py_simps)
  have "([] :: pystr, [] :: pystr list) \<in> set [([], [])]" by simp
  from parse_topicos_empty_name_no_subtopics [OF run this] run show ?thesis by simp
qed

end
