(* ===== verification/Roundtrip.thy ===== *)
theory Roundtrip
  imports Outline_Spec
begin

text \<open>
  The round trip between the bullet template that the prompt of \<open>gerar_topicos_ollama\<close>
  shows the model (\<open>* T\<oacute>pico i: nome\<close>, then \<open>    + Subt\<oacute>pico j: nome\<close> lines, a
  blank line after each topic) and the parser. \<open>format_outline\<close> prints an outline in
  that template; the theorem is that \<open>parse_topicos\<close> reads it back exactly, for every
  outline whose names are printable in it: topic names distinct and non-empty, no name
  with a line boundary or with whitespace at either end. The proof goes through the
  refinement of \<open>Outline_Spec\<close>: each printed line classifies as the topic or subtopic it
  prints, and \<open>outline_spec\<close> of those classes rebuilds the dict.
\<close>

definition topico_linha :: "nat \<Rightarrow> pystr \<Rightarrow> pystr" where
  "topico_linha i t = ascii ''* '' @ topico_word @ ascii '' '' @ py_str_nat i @ ascii '': '' @ t"

definition sub_linha :: "nat \<Rightarrow> pystr \<Rightarrow> pystr" where
  "sub_linha j s = ascii ''    + Sub'' @ [243] @ ascii ''pico '' @ py_str_nat j @ ascii '': '' @ s"

fun format_subs :: "nat \<Rightarrow> pystr list \<Rightarrow> pystr list" where
  "format_subs j [] = []"
| "format_subs j (s # ss) = sub_linha j s # format_subs (Suc j) ss"

fun format_blocos :: "nat \<Rightarrow> outline \<Rightarrow> pystr list" where
  "format_blocos i [] = []"
| "format_blocos i ((t, ss) # rest) = topico_linha i t # format_subs 1 ss @ [[]] @ format_blocos (Suc i) rest"

definition format_outline :: "outline \<Rightarrow> pystr" where
  "format_outline d = concat (map (\<lambda>l. l @ [10]) (format_blocos 1 d))"

text \<open>A name the template can carry: no line boundary, no whitespace at either end.\<close>

definition nome_ok :: "pystr \<Rightarrow> bool" where
  "nome_ok s \<longleftrightarrow>
     (\<forall>c\<in>set s. \<not> py_is_linebreak c) \<and> (s = [] \<or> \<not> py_isspace (hd s) \<and> \<not> py_isspace (last s))"

definition outline_ok :: "outline \<Rightarrow> bool" where
  "outline_ok d \<longleftrightarrow>
     distinct (dict_keys d) \<and> (\<forall>(t, ss)\<in>set d. t \<noteq> [] \<and> nome_ok t \<and> (\<forall>s\<in>set ss. nome_ok s))"

subsection \<open>The printed lines\<close>

lemma colon_58 [simp]: "colon = 58"
  by (simp add: colon_def)

lemma digit_facts:
  "c \<in> set (py_str_nat n) \<Longrightarrow> \<not> py_is_linebreak c \<and> \<not> py_isspace c \<and> c \<noteq> 58"
  using py_str_nat_digits [of c n] by (auto simp: py_is_linebreak_iff py_isspace_iff)

lemma digits_no_break: "\<forall>c\<in>set (py_str_nat n). \<not> py_is_linebreak c"
  using digit_facts by blast

lemma topico_linha_no_break [simp]:
  "(\<forall>c\<in>set (topico_linha i t). \<not> py_is_linebreak c) \<longleftrightarrow> (\<forall>c\<in>set t. \<not> py_is_linebreak c)"
  using digits_no_break [of i]
  by (auto simp: topico_linha_def topico_word_def py_is_linebreak_iff)

lemma sub_linha_no_break [simp]:
  "(\<forall>c\<in>set (sub_linha j s). \<not> py_is_linebreak c) \<longleftrightarrow> (\<forall>c\<in>set s. \<not> py_is_linebreak c)"
  using digits_no_break [of j]
  by (auto simp: sub_linha_def py_is_linebreak_iff)

lemma strip_space_nome: "nome_ok t \<Longrightarrow> py_strip (32 # t) = t"
  using py_strip_pad [of "[32]" "[]" t] by (simp add: nome_ok_def py_isspace_iff)

lemma classify_topico_linha:
  assumes "t \<noteq> []" and "nome_ok t"
  shows "classify (topico_linha i t) = Topic_Line (Some t)"
proof -
  let ?pre = "ascii ''* '' @ topico_word @ ascii '' '' @ py_str_nat i"
  have line: "topico_linha i t = ?pre @ 58 # 32 # t"
    by (simp add: topico_linha_def)
  have pre: "58 \<notin> set ?pre"
    by (auto simp: topico_word_def dest: digit_facts)
  have strip: "py_strip (topico_linha i t) = topico_linha i t"
    using assms by (intro py_strip_id) (auto simp: topico_linha_def nome_ok_def py_isspace_iff)
  have "is_topico_line (topico_linha i t)"
    using py_contains_middle [of topico_word "ascii ''* ''"]
    by (simp add: is_topico_line_def topico_linha_def)
  moreover have "after_colon (topico_linha i t) = 32 # t"
    by (simp only: after_colon_def line colon_58 dropWhile_first_sep [OF pre] list.sel(3))
  moreover have "topico_linha i t \<noteq> []" by (simp add: topico_linha_def)
  ultimately show ?thesis
    using assms strip by (simp add: classify_def line strip_space_nome)
qed

lemma classify_sub_linha:
  assumes "nome_ok s"
  shows "classify (sub_linha j s) = Sub_Line s"
proof -
  let ?core = "ascii ''+ Sub'' @ [243] @ ascii ''pico '' @ py_str_nat j"
  let ?rest = "if s = [] then [] else 32 # s"
  have pre: "58 \<notin> set ?core"
    by (auto dest: digit_facts)
  have strip: "py_strip (sub_linha j s) = ?core @ 58 # ?rest"
  proof (cases "s = []")
    case True
    then show ?thesis
      using py_strip_pad [of "ascii ''    ''" "[32]" "?core @ [58]"]
      by (simp add: sub_linha_def py_isspace_iff)
  next
    case False
    then show ?thesis
      using assms py_strip_pad [of "ascii ''    ''" "[]" "?core @ 58 # 32 # s"]
      by (simp add: sub_linha_def py_isspace_iff nome_ok_def)
  qed
  have "after_colon (?core @ 58 # ?rest) = ?rest"
    using pre by (simp add: after_colon_def dropWhile_first_sep)
  moreover have "py_strip ?rest = s"
    using assms by (simp add: strip_space_nome)
  ultimately show ?thesis
    by (simp add: classify_def strip is_topico_line_def is_sub_line_def)
qed

lemma classify_blank [simp]: "classify [] = Blank_Line"
  by (simp add: classify_def py_strip_def py_lstrip_def py_rstrip_def)

text \<open>The names of an outline, topics and subtopics.\<close>

lemma format_subs_no_break:
  "\<forall>s\<in>set ss. \<forall>c\<in>set s. \<not> py_is_linebreak c \<Longrightarrow>
     \<forall>l\<in>set (format_subs j ss). \<forall>c\<in>set l. \<not> py_is_linebreak c"
  by (induction ss arbitrary: j) auto

lemma format_subs_classify:
  "\<forall>s\<in>set ss. nome_ok s \<Longrightarrow> map classify (format_subs j ss) = map Sub_Line ss"
  by (induction ss arbitrary: j) (simp_all add: classify_sub_linha)

lemma format_blocos_no_break:
  "\<forall>(t, ss)\<in>set d. (\<forall>c\<in>set t. \<not> py_is_linebreak c) \<and> (\<forall>s\<in>set ss. \<forall>c\<in>set s. \<not> py_is_linebreak c) \<Longrightarrow>
     \<forall>l\<in>set (format_blocos i d). \<forall>c\<in>set l. \<not> py_is_linebreak c"
proof (induction i d rule: format_blocos.induct)
  case (2 i t ss rest)
  then show ?case using format_subs_no_break [of ss 1] by auto
qed simp

lemma format_blocos_classify:
  "\<forall>(t, ss)\<in>set d. t \<noteq> [] \<and> nome_ok t \<and> (\<forall>s\<in>set ss. nome_ok s) \<Longrightarrow>
     map classify (format_blocos i d) =
       concat (map (\<lambda>(t, ss). Topic_Line (Some t) # map Sub_Line ss @ [Blank_Line]) d)"
  by (induction i d rule: format_blocos.induct) (simp_all add: format_subs_classify classify_topico_linha)

subsection \<open>Rebuilding the dict\<close>

lemma topic_names_map_Sub [simp]: "topic_names (map Sub_Line ss) = []"
  by (induction ss) auto

lemma update_new_key: "k \<notin> set (dict_keys d) \<Longrightarrow> AList.update k v d = d @ [(k, v)]"
  by (induction d) auto

lemma outline_spec_block:
  assumes "Topic_Line None \<notin> set ks" and "t \<noteq> []"
  shows "outline_spec (ks @ Topic_Line (Some t) # map Sub_Line ss) = AList.update t ss (outline_spec ks)"
proof (induction ss rule: rev_induct)
  case Nil
  then show ?case
    using outline_spec_snoc_topic [of ks t] by simp
next
  case (snoc s ss)
  let ?X = "ks @ Topic_Line (Some t) # map Sub_Line ss"
  have none: "Topic_Line None \<notin> set ?X" using assms(1) by auto
  have last: "last_topic ?X = Some t"
    by (simp add: last_topic_def)
  have "map_of (outline_spec ?X) t = Some ss"
    using snoc by simp
  then have blk: "block_of t ?X = ss"
    by (simp add: map_of_outline_spec split: if_splits)
  have "outline_spec (?X @ [Sub_Line s]) = AList.update t (ss @ [s]) (outline_spec ?X)"
    using outline_spec_snoc_sub [OF none, of s] last assms(2) blk by simp
  then show ?case
    using snoc by simp
qed

lemma outline_spec_blocks:
  "distinct (dict_keys d) \<Longrightarrow> \<forall>(t, ss)\<in>set d. t \<noteq> [] \<Longrightarrow>
     outline_spec (concat (map (\<lambda>(t, ss). Topic_Line (Some t) # map Sub_Line ss @ [Blank_Line]) d)) = d"
proof (induction d rule: rev_induct)
  case Nil
  then show ?case by (simp add: outline_spec_def first_occurrences_def)
next
  case (snoc x d)
  obtain t ss where x: "x = (t, ss)" by (cases x)
  let ?ks = "concat (map (\<lambda>(t, ss). Topic_Line (Some t) # map Sub_Line ss @ [Blank_Line]) d)"
  have none: "Topic_Line None \<notin> set ?ks" by auto
  from snoc.prems x have "t \<noteq> []" and new: "t \<notin> set (dict_keys d)" by auto
  have "outline_spec (?ks @ Topic_Line (Some t) # map Sub_Line ss @ [Blank_Line]) =
        outline_spec (?ks @ Topic_Line (Some t) # map Sub_Line ss)"
    using outline_spec_snoc_other [of Blank_Line "?ks @ Topic_Line (Some t) # map Sub_Line ss"] by simp
  also have "\<dots> = AList.update t ss (outline_spec ?ks)"
    using none \<open>t \<noteq> []\<close> by (rule outline_spec_block)
  also have "\<dots> = d @ [(t, ss)]"
    using snoc new by (simp add: update_new_key)
  finally show ?case using x by simp
qed

lemma parse_linhas_format_outline:
  assumes "outline_ok d"
  shows "\<exists>st. parse_linhas parse_init (py_splitlines (format_outline d)) = Inr st \<and> topicos st = d"
proof -
  have names: "\<forall>(t, ss)\<in>set d. t \<noteq> [] \<and> nome_ok t \<and> (\<forall>s\<in>set ss. nome_ok s)"
    and dist: "distinct (dict_keys d)"
    using assms by (auto simp: outline_ok_def)
  then have "\<forall>(t, ss)\<in>set d. (\<forall>c\<in>set t. \<not> py_is_linebreak c) \<and> (\<forall>s\<in>set ss. \<forall>c\<in>set s. \<not> py_is_linebreak c)"
    by (fastforce simp: nome_ok_def)
  then have lines: "py_splitlines (format_outline d) = format_blocos 1 d"
    unfolding format_outline_def by (intro py_splitlines_join format_blocos_no_break)
  let ?ks = "concat (map (\<lambda>(t, ss). Topic_Line (Some t) # map Sub_Line ss @ [Blank_Line]) d)"
  have ks: "map classify (format_blocos 1 d) = ?ks"
    using names by (rule format_blocos_classify)
  have "Topic_Line None \<notin> set (map classify (format_blocos 1 d))"
    unfolding ks by auto
  then have "parse_linhas parse_init (format_blocos 1 d) =
      Inr \<lparr>topicos = outline_spec (map classify (format_blocos 1 d)),
           current_topico = last_topic (map classify (format_blocos 1 d))\<rparr>"
    by (rule parse_linhas_spec)
  then have "parse_linhas parse_init (format_blocos 1 d) =
      Inr \<lparr>topicos = outline_spec ?ks, current_topico = last_topic ?ks\<rparr>"
    by (simp only: ks)
  moreover have "outline_spec ?ks = d"
    using dist names by (intro outline_spec_blocks) auto
  ultimately show ?thesis
    by (simp add: lines)
qed

subsection \<open>Property\<close>

text \<open>
  C20. Round trip: an outline printed in the prompt's bullet template is parsed back by
  \<open>parse_topicos\<close> into the same dict (same keys in the same order, same subtopic
  lists), provided its topic names are distinct and non-empty and no name contains a line
  boundary or starts or ends with whitespace.
\<close>

theorem parse_format_outline:
  assumes "outline_ok d"
  shows "parse_topicos (format_outline d) = Inr d"
  using parse_linhas_format_outline [OF assms] by (auto simp: parse_topicos_def)

theorem parse_format_outline_witness:
  "parse_topicos (format_outline [(ascii ''Redes'', [ascii ''TCP'', ascii ''UDP'']), (ascii ''Web'', [])])
     = Inr [(ascii ''Redes'', [ascii ''TCP'', ascii ''UDP'']), (ascii ''Web'', [])]"
  by (rule parse_format_outline) (simp add: outline_ok_def nome_ok_def py_simps)

end
