(* ===== verification/Spec2Isabelle.thy ===== *)
theory Spec2Isabelle
  imports Pipeline Roundtrip
begin

text \<open>
  \<^bold>\<open>A verification development of the study assistant of src/main.py.\<close>

  \<^bold>\<open>The program.\<close> \<open>src/main.py\<close> is a single-run pipeline: \<open>escolher_pdf\<close> asks the
  user for a PDF through a file dialog, \<open>extrair_texto_pdf\<close> concatenates the text of
  its pages, \<open>gerar_topicos_ollama\<close> embeds the first 4000 characters of that text in a
  prompt and runs the external model (\<open>ollama run codellama\<close>), \<open>parse_topicos\<close> turns
  the free-text reply into a dict from topic names to lists of subtopic names, and
  \<open>criar_mapa_mental\<close> draws that dict as a Graphviz tree; \<open>main\<close> calls them in this
  order. The component with most logic of its own is the parser; the others are thin
  wrappers around a dialog, a PDF library, a subprocess and Graphviz.

  \<^bold>\<open>The theories.\<close>
  \<^item> \<open>Prelude\<close>: the types of the model. A Python \<open>str\<close> is a list of Unicode code
    points (\<open>pystr\<close>); a Python \<open>dict\<close> is an association list updated with
    \<open>AList.update\<close>, which keeps a key's position when the key is assigned again, as
    Python's insertion-ordered dict does; an exception is a \<open>py_error\<close> on the left of a
    sum. It also holds \<open>py_getitem\<close> (\<open>xs[i]\<close>, \<open>IndexError\<close>) and \<open>py_dict_get\<close>
    (\<open>d[k]\<close>, \<open>KeyError\<close>), the lemmas on dict key order, and the collection \<open>py_simps\<close>
    of evaluation rules.
  \<^item> \<open>PyStr\<close>: the Python string builtins the program calls, to the CPython definition:
    \<open>strip\<close> with the exact Unicode whitespace set, \<open>splitlines\<close> with the exact set of
    line boundaries (\<open>"\r\n"\<close> one boundary, no empty last line), \<open>startswith\<close>, the
    substring test \<open>in\<close>, \<open>split(sep, 1)\<close>, and \<open>str()\<close> of a number. Lemmas: \<open>in\<close> is
    \<open>sublist\<close>, \<open>startswith\<close> is \<open>prefix\<close>, splitting joined lines gives them back,
    stripping a padded string, and \<open>str()\<close> of a number is injective.
  \<^item> \<open>Utf8\<close>: the UTF-8 codec of CPython behind \<open>prompt.encode("utf-8")\<close> (line 65) and
    \<open>stdout.decode("utf-8")\<close> (line 68), on bytes as \<open>8 word\<close>: the encoder with the shifts
    and masks of CPython's \<open>utf8_encoder\<close> and its \<open>UnicodeEncodeError\<close> on surrogates, the
    decoder with the checks of CPython's \<open>utf8_decode\<close> in their order and the range and
    reason of its \<open>UnicodeDecodeError\<close>, and the \<open>str()\<close> of both exceptions. The
    decoding loop is a \<open>function\<close> with a termination proof by the length of the
    remaining bytes. Its theorems: the encoder equals the arithmetic definition of
    RFC 3629, decoding inverts encoding and only accepts encodings (the two laws of a
    prism), the exact conditions and messages of both errors, and the length bounds.
  \<^item> \<open>Parser\<close>: \<open>parse_topicos\<close> (lines 80--102) as the source writes it. The record
    \<open>parse_state\<close> holds the dict \<open>topicos\<close> and the variable \<open>current_topico\<close>;
    \<open>parse_linha\<close> is one iteration of the loop (strip, skip blank, the topic-line guard
    \<open>startswith("*") and "T\<oacute>pico" in linha\<close>, then the subtopic guard
    \<open>startswith("+") and current_topico\<close> with Python truthiness); \<open>parse_linhas\<close> is
    the loop, stopping at the first exception; \<open>parse_topicos\<close> runs it on
    \<open>resposta.splitlines()\<close>. The lemmas prove the loop invariant \<open>parse_inv\<close> (distinct keys, the
    current topic is a key of the dict), that \<open>KeyError\<close> is never raised, that
    \<open>IndexError\<close> is raised exactly when a topic line has no colon, and that lines before
    the first topic line have no effect.
  \<^item> \<open>Outline_Spec\<close>: the contract of the parser, separate from its loop, after the
    design notes of the spec: a line classifier \<open>classify\<close>, the reducer \<open>kind_step\<close>
    on classified lines, and the declarative outline \<open>outline_spec\<close> (each topic name
    once, in first-appearance order, with the subtopic lines after its last topic line,
    none for the empty name). The refinement theorems: one loop iteration is
    \<open>kind_step\<close> of the classified line, and \<open>parse_topicos\<close> returns
    \<open>outline_spec\<close> of the classified lines, or \<open>IndexError\<close>.
  \<^item> \<open>Roundtrip\<close>: the two-level bullet template the prompt asks the model for
    (\<open>format_outline\<close>, modelled from the spec and the prompt's example) and the law that
    parsing a printed outline gives it back, proved through the refinement lemmas of
    \<open>Outline_Spec\<close>, for outlines whose names print on one line (\<open>outline_ok\<close>).
  \<^item> \<open>Extractor\<close>: \<open>extrair_texto_pdf\<close> (lines 33--40) over the outcome of
    \<open>pdfplumber.open\<close> and of each page's \<open>extract_text()\<close>; the result in closed form and
    the propagation of the library's exceptions.
  \<^item> \<open>Requester\<close>: \<open>gerar_topicos_ollama\<close> (lines 45--75): the prompt, code point for
    code point, with the cut \<open>texto[:4000]\<close>, encoded to bytes before the process
    starts; the subprocess is a parameter from its argument vector and the bytes of its
    input to its outcome (the bytes of its output, \<open>FileNotFoundError\<close>, another
    exception with its message); the output is decoded and stripped. The reply depends
    only on the first 4000 code points and is never blank; a surrogate in the excerpt
    keeps the process from running; the process receives the UTF-8 bytes of the prompt.
  \<^item> \<open>Renderer\<close>: \<open>criar_mapa_mental\<close> (lines 107--127): the \<open>Digraph\<close> as its comment
    and the ordered list of node and edge statements its two loops add, with keys
    \<open>A\<close>, \<open>T{i}\<close> and \<open>T{i}_{j}\<close>, then the messages and the written file, with
    \<open>shutil.which("dot")\<close> and \<open>render\<close> as parameters. The keys are distinct, the
    graph is a tree rooted at \<open>A\<close> (checked by the executable \<open>tree_seen\<close>), and the
    labels are the title, each topic and its subtopics.
  \<^item> \<open>Pipeline\<close>: \<open>escolher_pdf\<close> (lines 21--28) as the call of the file dialog with its
    title and its PDF filter, and \<open>main\<close> (lines 132--154) as the list of its effects and
    the exception that escapes it, over the record \<open>ambiente\<close> of the external
    collaborators (the dialog, the PDF library, the process, \<open>dot\<close>, rendering). Its lemmas: cancelling stops at once; the mind map is written
    exactly when every stage succeeds with a non-empty outline; an exception escapes
    exactly from the PDF library or from the parser's \<open>IndexError\<close>.
  \<^item> This theory: properties across components: an exception message carrying an
    outline is parsed into that outline, and \<open>main\<close> end to end when \<open>ollama\<close> is
    missing and when the codec fails.

  \<^bold>\<open>What the theorems show.\<close> The parser never fails except by \<open>IndexError\<close> on a
  topic line without a colon, and \<open>main\<close> does not catch it, so the spec's "the parser
  never raises" and "the exit code is always success" do not hold of the code; the
  keys of the parsed dict are in first-appearance order; a repeated topic name keeps
  its first position but only the subtopics after its last occurrence; an empty topic
  name swallows the subtopic lines after it; lines before the first topic are ignored;
  a reply with no topic line gives the empty outline; printing an outline in the
  prompt's template and parsing it is the identity. The requester's reply is never
  blank, and the reply for a generic exception parses to any outline its message
  carries. A codec failure ends in the no-topic notice. The mind map is a tree with
  distinct keys whatever the names.

  \<^bold>\<open>Fuel and bounds.\<close> Every loop of the program is a Python \<open>for\<close> over a finite
  list (lines, pages, topics, subtopics), modelled by structural recursion, so no fuel
  is needed and every function is total; no machine integer occurs (Python's \<open>int\<close>
  indices and counters are \<open>nat\<close>). The one loop that is not structural, the UTF-8
  decoder, consumes one to four bytes a step, which is its termination measure. Bytes
  are \<open>8 word\<close>, and the encoder's \<open>(char)\<close> casts are \<open>of_nat\<close> into them; the
  theorems show every byte value fits. The only bound of the program itself, the
  4000-character cut of the prompt, is a theorem of \<open>Requester\<close>.

  \<^bold>\<open>Not modelled, and why.\<close> The hidden Tk root window of \<open>escolher_pdf\<close> has no
  effect a run can observe; the dialog itself is the parameter \<open>dialogo\<close>. The console
  encoding of \<open>print\<close> is not modelled. Text extraction inside \<open>pdfplumber\<close>,
  the model run by \<open>ollama\<close>, and Graphviz layout are external libraries and processes:
  they are parameters of the functions that call them, so every theorem holds for
  whatever they do. Graphviz's quoting of labels is part of \<open>render\<close>.
\<close>

section \<open>Properties across components\<close>

lemma diagnostics_parse_empty:
  "parse_topicos msg_ollama_ausente = Inr []"
  "parse_topicos msg_sem_resposta = Inr []"
  by (simp_all add: py_simps)

text \<open>A one-line reply that does not start with \<open>*\<close> or whitespace parses to nothing.\<close>

lemma parse_topicos_diagnostic:
  assumes "\<forall>c\<in>set r. \<not> py_is_linebreak c" and "\<not> py_isspace c0" and "c0 \<noteq> 42"
  shows "parse_topicos (c0 # r) = Inr []"
proof -
  from assms(1,2) have "py_splitlines (c0 # r) = [c0 # r]"
    by (intro py_splitlines_no_break) (auto dest: linebreak_isspace)
  moreover obtain t where "py_strip (c0 # r) = c0 # t"
    using py_strip_Cons_nonspace [OF assms(2)] by blast
  moreover have "\<not> is_topico_line (c0 # t)"
    using assms(3) by (simp add: is_topico_line_def py_startswith_def)
  ultimately have "parse_linhas parse_init (py_splitlines (c0 # r)) = Inr parse_init"
    by (intro parse_linhas_no_topic) (simp_all add: parse_init_def)
  then show ?thesis by (simp add: parse_topicos_def parse_init_def)
qed

lemma parse_topicos_erro_codec: "parse_topicos (msg_erro_ollama @ str_unicode_error e) = Inr []"
  using str_unicode_error_no_break [of e]
  by (simp add: msg_erro_ollama_def parse_topicos_diagnostic py_is_linebreak_iff py_isspace_iff)

text \<open>
  C21. The reply for an exception other than \<open>FileNotFoundError\<close> embeds \<open>str(e)\<close>,
  and the parser reads it like a model's reply: when the message is one line without a
  line break followed by an outline in the prompt's bullet template, the reply parses to
  exactly that outline, so \<open>main\<close> draws a mind map from an error message.
\<close>

theorem requester_exception_outline:
  assumes "utf8_encode (montar_prompt texto) = Inr entrada"
    and "run [ascii ''ollama'', ascii ''run'', modelo] entrada = Proc_Exception (cabeca @ [10] @ format_outline d)"
    and "\<forall>c\<in>set cabeca. \<not> py_is_linebreak c" and "outline_ok d"
  shows "parse_topicos (gerar_topicos_ollama run texto modelo) = Inr d"
proof -
  let ?l = "msg_erro_ollama @ cabeca"
  have l: "\<forall>c\<in>set ?l. \<not> py_is_linebreak c"
    using assms(3) by (simp add: msg_erro_ollama_def py_is_linebreak_iff)
  have reply: "gerar_topicos_ollama run texto modelo = ?l @ 10 # format_outline d"
    using assms(1,2) by (simp add: gerar_topicos_ollama_def)
  have lines: "py_splitlines (?l @ 10 # format_outline d) = ?l # py_splitlines (format_outline d)"
    unfolding py_splitlines_def using splitlines_from_line [OF l, of "[]" "format_outline d"] by simp
  obtain t where "py_strip ?l = 10060 # t"
    using py_strip_Cons_nonspace [of 10060] by (auto simp: msg_erro_ollama_def py_isspace_iff)
  then have "\<not> is_topico_line (py_strip ?l)"
    by (simp add: is_topico_line_def py_startswith_def)
  then have "parse_linhas parse_init [?l] = Inr parse_init"
    by (intro parse_linhas_no_topic) (simp_all add: parse_init_def)
  moreover obtain st where "parse_linhas parse_init (py_splitlines (format_outline d)) = Inr st"
    and "topicos st = d"
    using parse_linhas_format_outline [OF assms(4)] by blast
  ultimately have "parse_linhas parse_init (py_splitlines (gerar_topicos_ollama run texto modelo)) = Inr st"
    unfolding reply lines
    using parse_linhas_append [of parse_init "[?l]" "py_splitlines (format_outline d)"] by simp
  then show ?thesis by (simp add: parse_topicos_def \<open>topicos st = d\<close>)
qed

theorem requester_exception_outline_witness:
  "parse_topicos (gerar_topicos_ollama (\<lambda>_ _. Proc_Exception (ascii ''falha'' @ [10] @
       format_outline [(ascii ''Redes'', [ascii ''TCP''])])) (ascii ''texto'') modelo_padrao)
     = Inr [(ascii ''Redes'', [ascii ''TCP''])]"
  by (rule requester_exception_outline
      [where entrada = "concat (map utf8_encode_char (montar_prompt (ascii ''texto'')))" and cabeca = "ascii ''falha''"])
    (simp add: utf8_encode_prompt is_surrogate_def, simp, simp add: py_simps,
     simp add: outline_ok_def nome_ok_def py_simps)

text \<open>
  C22. When a PDF is chosen and its text extracted but \<open>ollama\<close> is not installed,
  \<open>main\<close> prints the progress lines, the diagnostic and the no-topic notice, writes no
  file and ends normally.
\<close>

theorem main_ollama_missing:
  assumes "escolha env \<noteq> []"
    and "extrair_texto_pdf (abrir_pdf env) (escolha env) = Inr c"
    and "utf8_encode (montar_prompt c) = Inr entrada"
    and "ollama env [ascii ''ollama'', ascii ''run'', modelo_padrao] entrada = Proc_Not_Found"
  shows "main env = ([Print (msg_pdf_selecionado @ escolha env), Print msg_extraindo, Print msg_gerando,
                      Print msg_topicos_gerados, Print msg_ollama_ausente, Print msg_sem_topicos], None)"
  using assms by (simp add: main_def gerar_topicos_ollama_def diagnostics_parse_empty)

theorem main_ollama_missing_witness:
  "main \<lparr>dialogo = \<lambda>_ _. ascii ''a.pdf'', abrir_pdf = \<lambda>_. Inr [Inr (Some (ascii ''texto''))],
         ollama = \<lambda>_ _. Proc_Not_Found, dot_encontrado = True, render = \<lambda>_. None\<rparr> =
   ([Print (msg_pdf_selecionado @ ascii ''a.pdf''), Print msg_extraindo, Print msg_gerando,
     Print msg_topicos_gerados, Print msg_ollama_ausente, Print msg_sem_topicos], None)"
  using main_ollama_missing [of "\<lparr>dialogo = \<lambda>_ _. ascii ''a.pdf'', abrir_pdf = \<lambda>_. Inr [Inr (Some (ascii ''texto''))],
         ollama = \<lambda>_ _. Proc_Not_Found, dot_encontrado = True, render = \<lambda>_. None\<rparr>"
      "ascii ''texto\<newline>''" "concat (map utf8_encode_char (montar_prompt (ascii ''texto\<newline>'')))"]
  by (simp add: extrair_texto_pdf_def escolher_pdf_def utf8_encode_prompt is_surrogate_def)

text \<open>
  C23. A failure of the UTF-8 codec never yields a mind map: when the excerpt holds a
  surrogate, or the output of \<open>ollama\<close> is not UTF-8, \<open>main\<close> prints the progress lines,
  the diagnostic with the message of the \<open>UnicodeError\<close>, and the no-topic notice, and
  ends normally.
\<close>

theorem main_codec_failure:
  assumes "escolha env \<noteq> []"
    and "extrair_texto_pdf (abrir_pdf env) (escolha env) = Inr c"
    and "utf8_encode (montar_prompt c) = Inl e \<or>
         (utf8_encode (montar_prompt c) = Inr entrada \<and>
          ollama env [ascii ''ollama'', ascii ''run'', modelo_padrao] entrada = Proc_Output saida \<and>
          utf8_decode saida = Inl e)"
  shows "main env = ([Print (msg_pdf_selecionado @ escolha env), Print msg_extraindo, Print msg_gerando,
                      Print msg_topicos_gerados, Print (msg_erro_ollama @ str_unicode_error e),
                      Print msg_sem_topicos], None)"
  using assms by (auto simp: main_def gerar_topicos_ollama_def parse_topicos_erro_codec)

theorem main_codec_failure_witness:
  "main \<lparr>dialogo = \<lambda>_ _. ascii ''a.pdf'', abrir_pdf = \<lambda>_. Inr [Inr (Some (ascii ''texto''))],
         ollama = \<lambda>_ _. Proc_Output [0xC3, 0x28], dot_encontrado = True, render = \<lambda>_. None\<rparr> =
   ([Print (msg_pdf_selecionado @ ascii ''a.pdf''), Print msg_extraindo, Print msg_gerando,
     Print msg_topicos_gerados, Print (msg_erro_ollama @ str_unicode_error
        (Unicode_Decode_Error 0xC3 0 1 Invalid_Continuation_Byte)), Print msg_sem_topicos], None)"
  using main_codec_failure [of "\<lparr>dialogo = \<lambda>_ _. ascii ''a.pdf'', abrir_pdf = \<lambda>_. Inr [Inr (Some (ascii ''texto''))],
         ollama = \<lambda>_ _. Proc_Output [0xC3, 0x28], dot_encontrado = True, render = \<lambda>_. None\<rparr>"
      "ascii ''texto\<newline>''" "Unicode_Decode_Error 0xC3 0 1 Invalid_Continuation_Byte"
      "concat (map utf8_encode_char (montar_prompt (ascii ''texto\<newline>'')))" "[0xC3, 0x28]"]
  by (simp add: extrair_texto_pdf_def escolher_pdf_def utf8_encode_prompt is_surrogate_def
      utf8_decode_def utf8_seq_def is_continuation_def)

end
